theory Spec2Isabelle
  imports Main
begin

section \<open>JavaScript values\<close>

text \<open>
  The processor receives its events from \<^verbatim>\<open>JSON.parse\<close>; the TypeScript interface
  \<^verbatim>\<open>AnalyticsEvent\<close> is erased at run time, so an event is whatever JSON value the payload
  held. Values are modelled as the run time has them. Numbers are integers here, of a
  magnitude that a double holds exactly and prints in plain decimal digits (below 2^53):
  the numbers the processor inspects are millisecond timestamps and pixel counts. An object
  is the list of its own properties, with distinct keys, in the order in which the engine
  enumerates them (keys that are array indices first, in ascending order, then the other
  keys in the order of the payload). A value that \<^verbatim>\<open>JSON.parse\<close> built holds no function:
  every property of it is again such a value.
\<close>

datatype jsval =
    Undefined
  | Null
  | Bool bool
  | Num int
  | Str string
  | Arr "jsval list"
  | Obj "(string \<times> jsval) list"

datatype error =
    TypeError
  | SyntaxError
  | ValidationError
  | BackendError string

text \<open>Truthiness, as \<^verbatim>\<open>if (v)\<close>, \<^verbatim>\<open>v ? a : b\<close> and \<^verbatim>\<open>v || w\<close> test it.\<close>

fun truthy :: "jsval \<Rightarrow> bool" where
  "truthy Undefined = False"
| "truthy Null = False"
| "truthy (Bool b) = b"
| "truthy (Num n) = (n \<noteq> 0)"
| "truthy (Str s) = (s \<noteq> [])"
| "truthy (Arr xs) = True"
| "truthy (Obj fs) = True"

text \<open>\<^verbatim>\<open>a || b\<close>\<close>

definition js_or :: "jsval \<Rightarrow> jsval \<Rightarrow> jsval" where
  "js_or a b = (if truthy a then a else b)"

fun nullish :: "jsval \<Rightarrow> bool" where
  "nullish Undefined = True"
| "nullish Null = True"
| "nullish v = False"

text \<open>
  \<^verbatim>\<open>v.k\<close> on a value that is neither null nor undefined: an own property of an object,
  and undefined otherwise. None of the keys the processor reads (context, properties, page,
  url, title, path, referrer, userAgent, screen, width, height, geo, country, city, region,
  ip, locale, receivedAt, projectId, eventType, timestamp, sessionId, userId, anonymousId)
  is a property of a string, number, boolean or array, or inherited by an object.
\<close>

fun js_prop :: "jsval \<Rightarrow> string \<Rightarrow> jsval" where
  "js_prop (Obj fs) k = (case map_of fs k of Some v \<Rightarrow> v | None \<Rightarrow> Undefined)"
| "js_prop v k = Undefined"

text \<open>\<^verbatim>\<open>v?.k\<close>\<close>

definition js_opt :: "jsval \<Rightarrow> string \<Rightarrow> jsval" where
  "js_opt v k = (if nullish v then Undefined else js_prop v k)"

text \<open>\<^verbatim>\<open>v.k\<close>, which throws on null and undefined.\<close>

definition js_get :: "jsval \<Rightarrow> string \<Rightarrow> error + jsval" where
  "js_get v k = (if nullish v then Inl TypeError else Inr (js_prop v k))"

subsection \<open>JSON.stringify\<close>

definition digit_char :: "nat \<Rightarrow> char" where
  "digit_char d = ''0123456789abcdef'' ! d"

function show_nat :: "nat \<Rightarrow> string" where
  "show_nat n = (if n < 10 then [digit_char n] else show_nat (n div 10) @ [digit_char (n mod 10)])"
  by pat_completeness auto
termination
  by (relation "measure id") auto

declare show_nat.simps [simp del]

definition show_int :: "int \<Rightarrow> string" where
  "show_int i = (if i < 0 then CHR ''-'' # show_nat (nat (- i)) else show_nat (nat i))"

text \<open>
  The escapes of a JSON string: the quote, the backslash, the five short escapes and
  \<^verbatim>\<open>\u00XX\<close> for the other control characters.
\<close>

definition quote_char :: "char \<Rightarrow> string" where
  "quote_char c =
     (if c = CHR 0x22 then [CHR 0x5C, CHR 0x22]
      else if c = CHR 0x5C then [CHR 0x5C, CHR 0x5C]
      else if c = CHR 0x08 then [CHR 0x5C, CHR ''b'']
      else if c = CHR 0x0C then [CHR 0x5C, CHR ''f'']
      else if c = CHR 0x0A then [CHR 0x5C, CHR ''n'']
      else if c = CHR 0x0D then [CHR 0x5C, CHR ''r'']
      else if c = CHR 0x09 then [CHR 0x5C, CHR ''t'']
      else if of_char c < (32::nat)
        then [CHR 0x5C, CHR ''u'', CHR ''0'', CHR ''0'',
              digit_char (of_char c div 16), digit_char (of_char c mod 16)]
      else [c])"

definition quote :: "string \<Rightarrow> string" where
  "quote s = CHR 0x22 # concat (map quote_char s) @ [CHR 0x22]"

fun join :: "string \<Rightarrow> string list \<Rightarrow> string" where
  "join sep [] = []"
| "join sep [x] = x"
| "join sep (x # y # ys) = x @ sep @ join sep (y # ys)"

text \<open>
  \<^verbatim>\<open>JSON.stringify(v)\<close>: undefined has no serialization (\<open>None\<close>), is written
  \<^verbatim>\<open>null\<close> inside an array and is left out of an object.
\<close>

fun JSON_stringify :: "jsval \<Rightarrow> string option" where
  "JSON_stringify Undefined = None"
| "JSON_stringify Null = Some ''null''"
| "JSON_stringify (Bool b) = Some (if b then ''true'' else ''false'')"
| "JSON_stringify (Num n) = Some (show_int n)"
| "JSON_stringify (Str s) = Some (quote s)"
| "JSON_stringify (Arr xs) =
     Some (''['' @ join '','' (map (\<lambda>x. case JSON_stringify x of None \<Rightarrow> ''null'' | Some s \<Rightarrow> s) xs)
           @ '']'')"
| "JSON_stringify (Obj fs) =
     Some (''{'' @ join '',''
             (concat (map (\<lambda>kv. case JSON_stringify (snd kv) of
                                   None \<Rightarrow> []
                                 | Some s \<Rightarrow> [quote (fst kv) @ '':'' @ s]) fs))
           @ ''}'')"

definition stringify_js :: "jsval \<Rightarrow> jsval" where
  "stringify_js v = (case JSON_stringify v of None \<Rightarrow> Undefined | Some s \<Rightarrow> Str s)"

subsection \<open>Conversion to a string, and dates\<close>

text \<open>
  \<^verbatim>\<open>ToString(v)\<close> on such a value. An object is converted by its methods \<^verbatim>\<open>toString\<close>
  and \<^verbatim>\<open>valueOf\<close>: an own property of either name is not a function and is passed over,
  and the inherited \<^verbatim>\<open>valueOf\<close> gives the object back, so the conversion gives
  \<^verbatim>\<open>[object Object]\<close> by the inherited \<^verbatim>\<open>toString\<close>, and throws a TypeError when the
  object has an own property \<^verbatim>\<open>toString\<close>. An array is converted by \<^verbatim>\<open>join\<close>: its
  elements converted in order, null and undefined as the empty text, with commas between.
\<close>

fun first_error :: "(error + 'a) list \<Rightarrow> error + 'a list" where
  "first_error [] = Inr []"
| "first_error (x # xs) =
     (case x of
        Inl err \<Rightarrow> Inl err
      | Inr v \<Rightarrow> (case first_error xs of Inl err \<Rightarrow> Inl err | Inr vs \<Rightarrow> Inr (v # vs)))"

fun js_toString :: "jsval \<Rightarrow> error + string" where
  "js_toString Undefined = Inr ''undefined''"
| "js_toString Null = Inr ''null''"
| "js_toString (Bool b) = Inr (if b then ''true'' else ''false'')"
| "js_toString (Num n) = Inr (show_int n)"
| "js_toString (Str s) = Inr s"
| "js_toString (Arr xs) =
     (case first_error (map (\<lambda>x. if nullish x then Inr [] else js_toString x) xs) of
        Inl err \<Rightarrow> Inl err
      | Inr parts \<Rightarrow> Inr (join '','' parts))"
| "js_toString (Obj fs) =
     (if ''toString'' \<in> fst ` set fs then Inl TypeError else Inr ''[object Object]'')"

text \<open>
  \<^verbatim>\<open>new Date(v)\<close>: a number is a time value in milliseconds (valid up to 8.64e15 in
  magnitude), undefined gives an invalid date, null and booleans are converted to a number.
  A string is parsed, and an array or object is first converted to a primitive, which for
  these values is the string above, and throws where that conversion throws. Which date the
  engine reads from a text is kept symbolic: \<open>DateParsed s\<close>.
\<close>

datatype jsdate =
    DateMs int
  | InvalidDate
  | DateParsed string

fun new_Date :: "jsval \<Rightarrow> error + jsdate" where
  "new_Date Undefined = Inr InvalidDate"
| "new_Date Null = Inr (DateMs 0)"
| "new_Date (Bool b) = Inr (DateMs (if b then 1 else 0))"
| "new_Date (Num n) = Inr (if \<bar>n\<bar> \<le> 8640000000000000 then DateMs n else InvalidDate)"
| "new_Date (Str s) = Inr (DateParsed s)"
| "new_Date v = (case js_toString v of Inl err \<Rightarrow> Inl err | Inr s \<Rightarrow> Inr (DateParsed s))"

section \<open>The event normalizer: transformToDatabaseEvent\<close>

text \<open>
  The user-agent parser is a library outside the repository. It is a parameter of the
  model: \<^verbatim>\<open>new UAParser(userAgent).getResult()\<close> as a function from the user-agent value to
  the error the library throws on it, or to the five fields the processor reads of its
  result, each a string or undefined.
\<close>

record ua_result =
  parsed_browser_name :: jsval
  parsed_browser_version :: jsval
  parsed_os_name :: jsval
  parsed_os_version :: jsval
  parsed_device_type :: jsval

text \<open>
  The row type \<^verbatim>\<open>DatabaseEvent\<close>. The same record describes the row the processor builds,
  whose cells are JavaScript values and dates, and the row as the table stores it, whose
  cells are nullable texts and timestamps; the two differ in the type of the cells only.
  (\<open>locale_str\<close> is the field \<^verbatim>\<open>locale\<close>.)
\<close>

record ('v, 'd) DatabaseEvent =
  event_id :: string
  project_id :: "'v"
  event_type :: "'v"
  event_time :: "'d"
  session_id :: "'v"
  user_id :: "'v"
  anonymous_id :: "'v"
  page_url :: "'v"
  page_title :: "'v"
  page_path :: "'v"
  page_referrer :: "'v"
  user_agent :: "'v"
  browser_name :: "'v"
  browser_version :: "'v"
  os_name :: "'v"
  os_version :: "'v"
  device_type :: "'v"
  screen_width :: "'v"
  screen_height :: "'v"
  country :: "'v"
  city :: "'v"
  region :: "'v"
  ip_address :: "'v"
  locale_str :: "'v"
  properties :: "'v"
  received_at :: "'d"

type_synonym js_event = "(jsval, jsdate) DatabaseEvent"

text \<open>
  The block of the five device fields: all null unless the user agent is truthy. The parser
  runs only then, and what it throws is not caught.
\<close>

definition parse_user_agent ::
  "(jsval \<Rightarrow> error + ua_result) \<Rightarrow> jsval \<Rightarrow> error + jsval \<times> jsval \<times> jsval \<times> jsval \<times> jsval" where
  "parse_user_agent UAParser userAgent =
     (if truthy userAgent
      then (case UAParser userAgent of
              Inl err \<Rightarrow> Inl err
            | Inr parsed \<Rightarrow>
                Inr (js_or (parsed_browser_name parsed) Null,
                     js_or (parsed_browser_version parsed) Null,
                     js_or (parsed_os_name parsed) Null,
                     js_or (parsed_os_version parsed) Null,
                     js_or (parsed_device_type parsed) (Str ''desktop'')))
      else Inr (Null, Null, Null, Null, Null))"

text \<open>
  \<open>randomUUID\<close> is the identifier \<^verbatim>\<open>randomUUID()\<close> returns in this call and \<open>now\<close>
  the time \<^verbatim>\<open>new Date()\<close> reads. Every \<^verbatim>\<open>event.k\<close> throws a TypeError when the
  event is null or undefined; the first one, \<^verbatim>\<open>event.context\<close>, is evaluated before
  anything else. Then the parser runs, and then the fields of the returned object are
  evaluated in order, \<^verbatim>\<open>new Date(event.timestamp)\<close> before
  \<^verbatim>\<open>new Date(event.context.receivedAt)\<close>; the first of these to throw ends the call with
  its error. \<^verbatim>\<open>event.context.receivedAt\<close> is read only where
  \<^verbatim>\<open>event.context?.receivedAt\<close> was truthy, so the context is an object there.
\<close>

definition transformToDatabaseEvent ::
  "(jsval \<Rightarrow> error + ua_result) \<Rightarrow> string \<Rightarrow> int \<Rightarrow> jsval \<Rightarrow> error + js_event" where
  "transformToDatabaseEvent UAParser randomUUID now event =
     (if nullish event then Inl TypeError
      else
        let context = js_prop event ''context'';
            props = js_prop event ''properties'';
            userAgent = js_or (js_opt context ''userAgent'') Null;
            page = js_opt context ''page'';
            pageUrl = js_or (js_or (js_opt page ''url'') (js_opt props ''url'')) Null;
            pageTitle = js_or (js_or (js_opt page ''title'') (js_opt props ''title'')) Null;
            pagePath = js_or (js_or (js_opt page ''path'') (js_opt props ''path'')) Null;
            pageReferrer = js_or (js_or (js_opt page ''referrer'') (js_opt props ''referrer'')) Null
        in
          case parse_user_agent UAParser userAgent of
            Inl err \<Rightarrow> Inl err
          | Inr (browserName, browserVersion, osName, osVersion, deviceType) \<Rightarrow>
          (case new_Date (js_prop event ''timestamp'') of
            Inl err \<Rightarrow> Inl err
          | Inr eventTime \<Rightarrow>
          (case (if truthy (js_opt context ''receivedAt'')
                 then new_Date (js_prop context ''receivedAt'')
                 else Inr (DateMs now)) of
            Inl err \<Rightarrow> Inl err
          | Inr receivedAt \<Rightarrow>
            Inr \<lparr>
              event_id = randomUUID,
              project_id = js_prop event ''projectId'',
              event_type = js_prop event ''eventType'',
              event_time = eventTime,
              session_id = js_or (js_prop event ''sessionId'') Null,
              user_id = js_or (js_prop event ''userId'') Null,
              anonymous_id = js_or (js_prop event ''anonymousId'') Null,
              page_url = pageUrl,
              page_title = pageTitle,
              page_path = pagePath,
              page_referrer = pageReferrer,
              user_agent = userAgent,
              browser_name = browserName,
              browser_version = browserVersion,
              os_name = osName,
              os_version = osVersion,
              device_type = deviceType,
              screen_width = js_or (js_opt (js_opt context ''screen'') ''width'') Null,
              screen_height = js_or (js_opt (js_opt context ''screen'') ''height'') Null,
              country = js_or (js_opt (js_opt context ''geo'') ''country'') Null,
              city = js_or (js_opt (js_opt context ''geo'') ''city'') Null,
              region = js_or (js_opt (js_opt context ''geo'') ''region'') Null,
              ip_address = js_or (js_opt context ''ip'') Null,
              locale_str = js_or (js_opt context ''locale'') Null,
              properties = (if truthy props then stringify_js props else Null),
              received_at = receivedAt
            \<rparr>)))"

text \<open>
  The events on which no step of \<^verbatim>\<open>transformToDatabaseEvent\<close> throws: the event is
  neither null nor undefined, the parser does not throw on a truthy user agent, and
  \<^verbatim>\<open>new Date\<close> throws neither on the timestamp nor on a truthy \<^verbatim>\<open>receivedAt\<close>.
\<close>

definition normalizes :: "(jsval \<Rightarrow> error + ua_result) \<Rightarrow> jsval \<Rightarrow> bool" where
  "normalizes UAParser event =
     (\<not> nullish event \<and>
      \<not> isl (parse_user_agent UAParser
               (js_or (js_opt (js_prop event ''context'') ''userAgent'') Null)) \<and>
      \<not> isl (new_Date (js_prop event ''timestamp'')) \<and>
      (\<not> truthy (js_opt (js_prop event ''context'') ''receivedAt'') \<or>
       \<not> isl (new_Date (js_opt (js_prop event ''context'') ''receivedAt''))))"

text \<open>A parser result in which nothing was recognised, and the parser that always gives it.\<close>

definition unparsed :: ua_result where
  "unparsed = \<lparr> parsed_browser_name = Undefined, parsed_browser_version = Undefined,
                parsed_os_name = Undefined, parsed_os_version = Undefined,
                parsed_device_type = Undefined \<rparr>"

definition blank_parser :: "jsval \<Rightarrow> error + ua_result" where
  "blank_parser ua = Inr unparsed"

text \<open>\<^verbatim>\<open>event.context?.page?.k\<close> and \<^verbatim>\<open>event.properties?.k\<close>, the two sources of a page field.\<close>

definition context_page_field :: "jsval \<Rightarrow> string \<Rightarrow> jsval" where
  "context_page_field event k = js_opt (js_opt (js_prop event ''context'') ''page'') k"

definition properties_field :: "jsval \<Rightarrow> string \<Rightarrow> jsval" where
  "properties_field event k = js_opt (js_prop event ''properties'') k"

section \<open>The stream batch consumer: handler\<close>

record kinesis_record =
  data :: string
  partitionKey :: string
  sequenceNumber :: string

datatype log_entry =
    Info_processing nat
  | Error_failed_to_parse error string string
  | Info_no_valid_events
  | Info_transformed nat
  | Info_inserted nat
  | Error_failed_to_insert error

text \<open>
  The body of the \<^verbatim>\<open>try\<close> block for one record. \<open>decode\<close> is
  \<^verbatim>\<open>JSON.parse(Buffer.from(data, 'base64').toString('utf-8'))\<close>, a parameter: it gives a
  JSON value or the error \<^verbatim>\<open>JSON.parse\<close> throws.
\<close>

definition try_record ::
  "(string \<Rightarrow> error + jsval) \<Rightarrow> (jsval \<Rightarrow> error + ua_result) \<Rightarrow> string \<Rightarrow> int \<Rightarrow> kinesis_record
     \<Rightarrow> error + js_event" where
  "try_record decode UAParser randomUUID now rec =
     (case decode (data rec) of
        Inl err \<Rightarrow> Inl err
      | Inr analyticsEvent \<Rightarrow> transformToDatabaseEvent UAParser randomUUID now analyticsEvent)"

text \<open>
  The loop over \<^verbatim>\<open>event.Records\<close>. \<open>ids i\<close> and \<open>clock i\<close> are what
  \<^verbatim>\<open>randomUUID()\<close> and \<^verbatim>\<open>new Date()\<close> give while record \<open>i\<close> is processed. A success
  is pushed onto \<open>databaseEvents\<close>; a failure is caught and logged, and the loop goes on.
\<close>

fun process_records ::
  "(string \<Rightarrow> error + jsval) \<Rightarrow> (jsval \<Rightarrow> error + ua_result) \<Rightarrow> (nat \<Rightarrow> string) \<Rightarrow> (nat \<Rightarrow> int) \<Rightarrow> nat
     \<Rightarrow> kinesis_record list \<Rightarrow> js_event list \<Rightarrow> log_entry list \<Rightarrow> js_event list \<times> log_entry list" where
  "process_records decode UAParser ids clock i [] databaseEvents logs = (databaseEvents, logs)"
| "process_records decode UAParser ids clock i (rec # rest) databaseEvents logs =
     (case try_record decode UAParser (ids i) (clock i) rec of
        Inr databaseEvent \<Rightarrow>
          process_records decode UAParser ids clock (Suc i) rest (databaseEvents @ [databaseEvent]) logs
      | Inl err \<Rightarrow>
          process_records decode UAParser ids clock (Suc i) rest databaseEvents
            (logs @ [Error_failed_to_parse err (partitionKey rec) (sequenceNumber rec)]))"

text \<open>
  What one invocation of the handler did: the error it threw, if any, the log, the calls of
  \<^verbatim>\<open>insertEvents\<close> it made (the argument of each), and the storage afterwards.
\<close>

record 's outcome =
  threw :: "error option"
  logs :: "log_entry list"
  insert_calls :: "js_event list list"
  storage :: "'s"

text \<open>
  \<open>db_insertEvents\<close> is the \<^verbatim>\<open>insertEvents\<close> of the adapter \<^verbatim>\<open>getStorage()\<close> returns: it
  takes the rows and the storage, and gives the error it threw, if any, and the storage
  afterwards.
\<close>

definition handler ::
  "(string \<Rightarrow> error + jsval) \<Rightarrow> (jsval \<Rightarrow> error + ua_result) \<Rightarrow> (nat \<Rightarrow> string) \<Rightarrow> (nat \<Rightarrow> int)
     \<Rightarrow> (js_event list \<Rightarrow> 's \<Rightarrow> error option \<times> 's) \<Rightarrow> kinesis_record list \<Rightarrow> 's \<Rightarrow> 's outcome" where
  "handler decode UAParser ids clock db_insertEvents Records db =
     (case process_records decode UAParser ids clock 0 Records [] [Info_processing (length Records)] of
        (databaseEvents, logs1) \<Rightarrow>
          if length databaseEvents = 0
          then \<lparr> threw = None, logs = logs1 @ [Info_no_valid_events], insert_calls = [], storage = db \<rparr>
          else
            (case db_insertEvents databaseEvents db of
               (None, db') \<Rightarrow>
                 \<lparr> threw = None,
                   logs = logs1 @ [Info_transformed (length databaseEvents),
                                   Info_inserted (length databaseEvents)],
                   insert_calls = [databaseEvents], storage = db' \<rparr>
             | (Some err, db') \<Rightarrow>
                 \<lparr> threw = Some err,
                   logs = logs1 @ [Info_transformed (length databaseEvents),
                                   Error_failed_to_insert err],
                   insert_calls = [databaseEvents], storage = db' \<rparr>))"

text \<open>
  The rows of a batch that decode and normalize, in the order of the batch, and the log
  entries of those that do not; both are stated over the records alone.
\<close>

fun normalized_rows ::
  "(string \<Rightarrow> error + jsval) \<Rightarrow> (jsval \<Rightarrow> error + ua_result) \<Rightarrow> (nat \<Rightarrow> string) \<Rightarrow> (nat \<Rightarrow> int) \<Rightarrow> nat
     \<Rightarrow> kinesis_record list \<Rightarrow> js_event list" where
  "normalized_rows decode UAParser ids clock i [] = []"
| "normalized_rows decode UAParser ids clock i (rec # rest) =
     (case try_record decode UAParser (ids i) (clock i) rec of
        Inr row \<Rightarrow> [row]
      | Inl err \<Rightarrow> [])
     @ normalized_rows decode UAParser ids clock (Suc i) rest"

fun failure_entries ::
  "(string \<Rightarrow> error + jsval) \<Rightarrow> (jsval \<Rightarrow> error + ua_result) \<Rightarrow> (nat \<Rightarrow> string) \<Rightarrow> (nat \<Rightarrow> int) \<Rightarrow> nat
     \<Rightarrow> kinesis_record list \<Rightarrow> log_entry list" where
  "failure_entries decode UAParser ids clock i [] = []"
| "failure_entries decode UAParser ids clock i (rec # rest) =
     (case try_record decode UAParser (ids i) (clock i) rec of
        Inr row \<Rightarrow> []
      | Inl err \<Rightarrow> [Error_failed_to_parse err (partitionKey rec) (sequenceNumber rec)])
     @ failure_entries decode UAParser ids clock (Suc i) rest"

section \<open>The DSQL adapter: insertEvents\<close>

text \<open>
  The database behind one pooled connection, as far as the adapter drives it: the rows of
  the table \<^verbatim>\<open>events\<close> that are committed, and the state of the connection's transaction.
  \<^verbatim>\<open>BEGIN\<close> opens a transaction; an \<^verbatim>\<open>INSERT\<close> inside it is held back until
  \<^verbatim>\<open>COMMIT\<close>; a statement that fails inside it aborts it, and later statements fail until
  \<^verbatim>\<open>ROLLBACK\<close>. Which row the database refuses is the parameter \<open>refuses\<close>: given the
  rows the statement sees and the row to insert, the error, if any. The three transaction
  statements themselves do not fail in this model, and the connection is there: the adapter
  takes it from the pool before its \<^verbatim>\<open>try\<close> block and releases it in the
  \<^verbatim>\<open>finally\<close> block, neither of which touches the table.
\<close>

datatype txn = Idle | Open_txn "js_event list" | Aborted

record pg_db =
  committed :: "js_event list"
  transaction :: txn

datatype pg_statement = BEGIN | INSERT js_event | COMMIT | ROLLBACK

fun client_query ::
  "(js_event list \<Rightarrow> js_event \<Rightarrow> error option) \<Rightarrow> pg_statement \<Rightarrow> pg_db \<Rightarrow> error option \<times> pg_db" where
  "client_query refuses BEGIN db =
     (case transaction db of
        Idle \<Rightarrow> (None, db\<lparr>transaction := Open_txn []\<rparr>)
      | Open_txn pending \<Rightarrow> (None, db)
      | Aborted \<Rightarrow> (Some (BackendError ''current transaction is aborted''), db))"
| "client_query refuses (INSERT row) db =
     (case transaction db of
        Idle \<Rightarrow>
          (case refuses (committed db) row of
             Some err \<Rightarrow> (Some err, db)
           | None \<Rightarrow> (None, db\<lparr>committed := committed db @ [row]\<rparr>))
      | Open_txn pending \<Rightarrow>
          (case refuses (committed db @ pending) row of
             Some err \<Rightarrow> (Some err, db\<lparr>transaction := Aborted\<rparr>)
           | None \<Rightarrow> (None, db\<lparr>transaction := Open_txn (pending @ [row])\<rparr>))
      | Aborted \<Rightarrow> (Some (BackendError ''current transaction is aborted''), db))"
| "client_query refuses COMMIT db =
     (case transaction db of
        Idle \<Rightarrow> (None, db)
      | Open_txn pending \<Rightarrow> (None, db\<lparr>committed := committed db @ pending, transaction := Idle\<rparr>)
      | Aborted \<Rightarrow> (None, db\<lparr>transaction := Idle\<rparr>))"
| "client_query refuses ROLLBACK db = (None, db\<lparr>transaction := Idle\<rparr>)"

text \<open>The \<^verbatim>\<open>for\<close> loop of the inserts: the first statement that throws ends it.\<close>

fun insert_each ::
  "(js_event list \<Rightarrow> js_event \<Rightarrow> error option) \<Rightarrow> js_event list \<Rightarrow> pg_db \<Rightarrow> error option \<times> pg_db" where
  "insert_each refuses [] db = (None, db)"
| "insert_each refuses (event # events) db =
     (case client_query refuses (INSERT event) db of
        (Some err, db') \<Rightarrow> (Some err, db')
      | (None, db') \<Rightarrow> insert_each refuses events db')"

text \<open>The \<^verbatim>\<open>catch\<close> block: \<^verbatim>\<open>ROLLBACK\<close>, then the caught error is thrown again.\<close>

definition catch_rollback ::
  "(js_event list \<Rightarrow> js_event \<Rightarrow> error option) \<Rightarrow> error \<Rightarrow> pg_db \<Rightarrow> error option \<times> pg_db" where
  "catch_rollback refuses err db =
     (case client_query refuses ROLLBACK db of
        (Some err', db') \<Rightarrow> (Some err', db')
      | (None, db') \<Rightarrow> (Some err, db'))"

definition DSQL_insertEvents ::
  "(js_event list \<Rightarrow> js_event \<Rightarrow> error option) \<Rightarrow> js_event list \<Rightarrow> pg_db \<Rightarrow> error option \<times> pg_db" where
  "DSQL_insertEvents refuses events db =
     (case client_query refuses BEGIN db of
        (Some err, db1) \<Rightarrow> catch_rollback refuses err db1
      | (None, db1) \<Rightarrow>
          (case insert_each refuses events db1 of
             (Some err, db2) \<Rightarrow> catch_rollback refuses err db2
           | (None, db2) \<Rightarrow>
               (case client_query refuses COMMIT db2 of
                  (Some err, db3) \<Rightarrow> catch_rollback refuses err db3
                | (None, db3) \<Rightarrow> (None, db3))))"


section \<open>The ClickHouse adapter: insertEvents\<close>






section \<open>The read operations\<close>

text \<open>
  A stored row has nullable text cells and a timestamp in milliseconds since the epoch
  (UTC). \<^verbatim>\<open>startDate\<close> and \<^verbatim>\<open>endDate\<close> of a filter are calendar days, counted from the
  epoch: the value the backend reads from the date string. (\<open>filter_country\<close> is the
  filter's field \<^verbatim>\<open>country\<close>.)
\<close>

type_synonym stored_event = "(string option, int) DatabaseEvent"

record QueryFilters =
  projectId :: string
  startDate :: int
  endDate :: int
  eventType :: "string option"
  userId :: "string option"
  sessionId :: "string option"
  pagePath :: "string option"
  filter_country :: "string option"

definition ms_per_day :: int where
  "ms_per_day = 86400000"

text \<open>\<^verbatim>\<open>COUNT(DISTINCT col)\<close>: the number of different values that are not null.\<close>

definition count_distinct :: "('r \<Rightarrow> string option) \<Rightarrow> 'r list \<Rightarrow> nat" where
  "count_distinct col rows = length (remdups (List.map_filter col rows))"

text \<open>\<^verbatim>\<open>limit: number = 20\<close>\<close>

definition limit_or_default :: "nat option \<Rightarrow> nat" where
  "limit_or_default limit = (case limit of None \<Rightarrow> 20 | Some n \<Rightarrow> n)"

subsection \<open>DSQL: the conditions of the seven operations\<close>

text \<open>
  \<^verbatim>\<open>project_id = $1 AND event_time >= $2::date AND event_time < ($3::date + INTERVAL '1 day')\<close>,
  with \<^verbatim>\<open>[filters.projectId, filters.startDate, filters.endDate]\<close> for the parameters: the
  part every query of the adapter starts with.
\<close>

definition DSQL_where :: "QueryFilters \<Rightarrow> stored_event \<Rightarrow> bool" where
  "DSQL_where filters r =
     (project_id r = Some (projectId filters) \<and>
      startDate filters * ms_per_day \<le> event_time r \<and>
      event_time r < (endDate filters + 1) * ms_per_day)"

definition DSQL_getOverview_where :: "QueryFilters \<Rightarrow> stored_event \<Rightarrow> bool" where
  "DSQL_getOverview_where filters r = DSQL_where filters r"

definition DSQL_getPageViews_where :: "QueryFilters \<Rightarrow> stored_event \<Rightarrow> bool" where
  "DSQL_getPageViews_where filters r =
     (DSQL_where filters r \<and> event_type r = Some ''pageview'' \<and> page_path r \<noteq> None)"

definition DSQL_getReferrers_where :: "QueryFilters \<Rightarrow> stored_event \<Rightarrow> bool" where
  "DSQL_getReferrers_where filters r =
     (DSQL_where filters r \<and> event_type r = Some ''pageview'' \<and>
      page_referrer r \<noteq> Some [] \<and> page_referrer r \<noteq> None)"

definition DSQL_getDeviceStats_device_where :: "QueryFilters \<Rightarrow> stored_event \<Rightarrow> bool" where
  "DSQL_getDeviceStats_device_where filters r =
     (DSQL_where filters r \<and> event_type r = Some ''pageview'' \<and> device_type r \<noteq> None)"

definition DSQL_getDeviceStats_browser_where :: "QueryFilters \<Rightarrow> stored_event \<Rightarrow> bool" where
  "DSQL_getDeviceStats_browser_where filters r =
     (DSQL_where filters r \<and> event_type r = Some ''pageview'' \<and> browser_name r \<noteq> None)"

definition DSQL_getDeviceStats_os_where :: "QueryFilters \<Rightarrow> stored_event \<Rightarrow> bool" where
  "DSQL_getDeviceStats_os_where filters r =
     (DSQL_where filters r \<and> event_type r = Some ''pageview'' \<and> os_name r \<noteq> None)"

definition DSQL_getGeoStats_where :: "QueryFilters \<Rightarrow> stored_event \<Rightarrow> bool" where
  "DSQL_getGeoStats_where filters r =
     (DSQL_where filters r \<and> event_type r = Some ''pageview'' \<and> country r \<noteq> None)"

definition DSQL_getTimeSeries_where :: "QueryFilters \<Rightarrow> stored_event \<Rightarrow> bool" where
  "DSQL_getTimeSeries_where filters r = DSQL_where filters r"

definition DSQL_getWebVitals_where :: "QueryFilters \<Rightarrow> stored_event \<Rightarrow> bool" where
  "DSQL_getWebVitals_where filters r = (DSQL_where filters r \<and> event_type r = Some ''webvital'')"

subsection \<open>DSQL: getOverview\<close>

record OverviewMetrics =
  totalEvents :: nat
  totalPageviews :: nat
  uniqueSessions :: nat
  uniqueVisitors :: nat
  uniqueUsers :: nat

definition DSQL_getOverview :: "QueryFilters \<Rightarrow> stored_event list \<Rightarrow> OverviewMetrics" where
  "DSQL_getOverview filters events =
     (let rows = filter (DSQL_getOverview_where filters) events in
      \<lparr> totalEvents = length rows,
        totalPageviews = length (filter (\<lambda>r. event_type r = Some ''pageview'') rows),
        uniqueSessions = count_distinct session_id rows,
        uniqueVisitors = count_distinct anonymous_id rows,
        uniqueUsers = count_distinct user_id (filter (\<lambda>r. user_id r \<noteq> None) rows) \<rparr>)"

subsection \<open>DSQL: getReferrers\<close>

text \<open>
  The grouping key
  \<^verbatim>\<open>CASE WHEN page_referrer ~ '^https?://([^/]+)' THEN substring(page_referrer from
  '^https?://([^/]+)') ELSE page_referrer END\<close>.
  The pattern matches when the text starts with \<^verbatim>\<open>http://\<close> or \<^verbatim>\<open>https://\<close> (in lower
  case) and at least one character other than a slash follows; \<^verbatim>\<open>substring\<close> gives the
  parenthesised part, which is the longest run of such characters.
\<close>

definition after_scheme :: "string \<Rightarrow> string option" where
  "after_scheme ref =
     (if take 8 ref = ''https://'' then Some (drop 8 ref)
      else if take 7 ref = ''http://'' then Some (drop 7 ref)
      else None)"

definition DSQL_referrer_domain :: "string \<Rightarrow> string" where
  "DSQL_referrer_domain ref =
     (case after_scheme ref of
        None \<Rightarrow> ref
      | Some rest \<Rightarrow>
          if takeWhile (\<lambda>c. c \<noteq> CHR ''/'') rest = [] then ref
          else takeWhile (\<lambda>c. c \<noteq> CHR ''/'') rest)"

definition DSQL_referrer_key :: "stored_event \<Rightarrow> string" where
  "DSQL_referrer_key r = (case page_referrer r of None \<Rightarrow> [] | Some ref \<Rightarrow> DSQL_referrer_domain ref)"

record ReferrerStat =
  referrerDomain :: string
  visits :: nat
  referrer_uniqueSessions :: nat

text \<open>
  \<^verbatim>\<open>GROUP BY referrer_domain ORDER BY visits DESC LIMIT $4\<close>. SQL leaves the order of groups
  with the same number of visits open; here they keep the order in which their first row
  occurs.
\<close>

definition DSQL_getReferrers :: "QueryFilters \<Rightarrow> nat option \<Rightarrow> stored_event list \<Rightarrow> ReferrerStat list" where
  "DSQL_getReferrers filters limit events =
     (let rows = filter (DSQL_getReferrers_where filters) events;
          groups = map (\<lambda>d. \<lparr> referrerDomain = d,
                                visits = length (filter (\<lambda>r. DSQL_referrer_key r = d) rows),
                                referrer_uniqueSessions =
                                  count_distinct session_id (filter (\<lambda>r. DSQL_referrer_key r = d) rows) \<rparr>)
                       (remdups (map DSQL_referrer_key rows))
      in take (limit_or_default limit) (sort_key (\<lambda>g. - int (visits g)) groups))"

subsection \<open>ClickHouse: the conditions of the seven operations\<close>

text \<open>
  The ClickHouse table has a column \<^verbatim>\<open>date\<close> besides the columns the adapter inserts; the
  queries test it with \<^verbatim>\<open>date BETWEEN {startDate:Date} AND {endDate:Date}\<close>. The table's
  definition is not part of the repository, so a row carries its date as it is stored.
\<close>

record ch_stored_event =
  date_col :: int
  cols :: stored_event

definition ClickHouse_where :: "QueryFilters \<Rightarrow> ch_stored_event \<Rightarrow> bool" where
  "ClickHouse_where filters r =
     (project_id (cols r) = Some (projectId filters) \<and>
      startDate filters \<le> date_col r \<and> date_col r \<le> endDate filters)"

definition ClickHouse_getOverview_where :: "QueryFilters \<Rightarrow> ch_stored_event \<Rightarrow> bool" where
  "ClickHouse_getOverview_where filters r = ClickHouse_where filters r"

definition ClickHouse_getPageViews_where :: "QueryFilters \<Rightarrow> ch_stored_event \<Rightarrow> bool" where
  "ClickHouse_getPageViews_where filters r =
     (ClickHouse_where filters r \<and> event_type (cols r) = Some ''pageview'' \<and> page_path (cols r) \<noteq> None)"

definition ClickHouse_getReferrers_where :: "QueryFilters \<Rightarrow> ch_stored_event \<Rightarrow> bool" where
  "ClickHouse_getReferrers_where filters r =
     (ClickHouse_where filters r \<and> event_type (cols r) = Some ''pageview'' \<and>
      page_referrer (cols r) \<noteq> Some [] \<and> page_referrer (cols r) \<noteq> None)"

definition ClickHouse_getDeviceStats_device_where :: "QueryFilters \<Rightarrow> ch_stored_event \<Rightarrow> bool" where
  "ClickHouse_getDeviceStats_device_where filters r =
     (ClickHouse_where filters r \<and> event_type (cols r) = Some ''pageview'' \<and> device_type (cols r) \<noteq> None)"

definition ClickHouse_getDeviceStats_browser_where :: "QueryFilters \<Rightarrow> ch_stored_event \<Rightarrow> bool" where
  "ClickHouse_getDeviceStats_browser_where filters r =
     (ClickHouse_where filters r \<and> event_type (cols r) = Some ''pageview'' \<and> browser_name (cols r) \<noteq> None)"

definition ClickHouse_getDeviceStats_os_where :: "QueryFilters \<Rightarrow> ch_stored_event \<Rightarrow> bool" where
  "ClickHouse_getDeviceStats_os_where filters r =
     (ClickHouse_where filters r \<and> event_type (cols r) = Some ''pageview'' \<and> os_name (cols r) \<noteq> None)"

definition ClickHouse_getGeoStats_where :: "QueryFilters \<Rightarrow> ch_stored_event \<Rightarrow> bool" where
  "ClickHouse_getGeoStats_where filters r =
     (ClickHouse_where filters r \<and> event_type (cols r) = Some ''pageview'' \<and> country (cols r) \<noteq> None)"

definition ClickHouse_getTimeSeries_where :: "QueryFilters \<Rightarrow> ch_stored_event \<Rightarrow> bool" where
  "ClickHouse_getTimeSeries_where filters r = ClickHouse_where filters r"

definition ClickHouse_getWebVitals_where :: "QueryFilters \<Rightarrow> ch_stored_event \<Rightarrow> bool" where
  "ClickHouse_getWebVitals_where filters r =
     (ClickHouse_where filters r \<and> event_type (cols r) = Some ''webvital'')"

subsection \<open>ClickHouse: getOverview and getReferrers\<close>

text \<open>
  \<^verbatim>\<open>uniq\<close> and \<^verbatim>\<open>domain\<close> are functions of ClickHouse, parameters here: \<open>uniq\<close> gives
  the (approximate) number of different values of a column over the rows of a group, and
  \<open>domain\<close> the host name ClickHouse reads from a URL.
\<close>

definition ClickHouse_getOverview ::
  "(string option list \<Rightarrow> nat) \<Rightarrow> QueryFilters \<Rightarrow> ch_stored_event list \<Rightarrow> OverviewMetrics" where
  "ClickHouse_getOverview uniq filters events =
     (let rows = filter (ClickHouse_getOverview_where filters) events in
      \<lparr> totalEvents = length rows,
        totalPageviews = length (filter (\<lambda>r. event_type (cols r) = Some ''pageview'') rows),
        uniqueSessions = uniq (map (\<lambda>r. session_id (cols r)) rows),
        uniqueVisitors = uniq (map (\<lambda>r. anonymous_id (cols r)) rows),
        uniqueUsers = uniq (map (\<lambda>r. user_id (cols r)) (filter (\<lambda>r. user_id (cols r) \<noteq> None) rows)) \<rparr>)"

definition ClickHouse_referrer_key :: "(string \<Rightarrow> string) \<Rightarrow> ch_stored_event \<Rightarrow> string" where
  "ClickHouse_referrer_key domain r =
     (case page_referrer (cols r) of None \<Rightarrow> [] | Some ref \<Rightarrow> domain ref)"

definition ClickHouse_getReferrers ::
  "(string \<Rightarrow> string) \<Rightarrow> (string option list \<Rightarrow> nat) \<Rightarrow> QueryFilters \<Rightarrow> nat option
     \<Rightarrow> ch_stored_event list \<Rightarrow> ReferrerStat list" where
  "ClickHouse_getReferrers domain uniq filters limit events =
     (let rows = filter (ClickHouse_getReferrers_where filters) events;
          groups = map (\<lambda>d. \<lparr> referrerDomain = d,
                                visits = length (filter (\<lambda>r. ClickHouse_referrer_key domain r = d) rows),
                                referrer_uniqueSessions =
                                  uniq (map (\<lambda>r. session_id (cols r))
                                          (filter (\<lambda>r. ClickHouse_referrer_key domain r = d) rows)) \<rparr>)
                       (remdups (map (ClickHouse_referrer_key domain) rows))
      in take (limit_or_default limit) (sort_key (\<lambda>g. - int (visits g)) groups))"

section \<open>Example inputs\<close>

definition sample_ua :: string where
  "sample_ua = ''Mozilla/5.0 (X11; Linux x86_64; rv:120.0) Gecko/20100101 Firefox/120.0''"

text \<open>
  A stand-in for the parser: it knows one user agent, recognises nothing in any other text,
  and throws when it is handed an object.
\<close>

definition sample_parser :: "jsval \<Rightarrow> error + ua_result" where
  "sample_parser ua =
     (case ua of
        Obj fs \<Rightarrow> Inl TypeError
      | _ \<Rightarrow>
          if ua = Str sample_ua
          then Inr \<lparr> parsed_browser_name = Str ''Firefox'', parsed_browser_version = Str ''120.0'',
                     parsed_os_name = Str ''Linux'', parsed_os_version = Undefined,
                     parsed_device_type = Undefined \<rparr>
          else Inr unparsed)"

definition ev_object_ua :: jsval where
  "ev_object_ua =
     Obj [(''projectId'', Str ''p1''), (''eventType'', Str ''pageview''),
          (''timestamp'', Num 1767345974789),
          (''context'', Obj [(''userAgent'', Obj [(''browser'', Obj [(''length'', Num 2)])])])]"

definition ev_bad_received_at :: jsval where
  "ev_bad_received_at =
     Obj [(''projectId'', Str ''p1''), (''eventType'', Str ''pageview''),
          (''timestamp'', Num 1767345974789),
          (''context'', Obj [(''receivedAt'', Obj [(''toString'', Num 1)])])]"

definition ev_no_project :: jsval where
  "ev_no_project = Obj [(''eventType'', Str ''pageview''), (''timestamp'', Num 1767345974789)]"

definition ev_empty_props :: jsval where
  "ev_empty_props =
     Obj [(''projectId'', Str ''p1''), (''eventType'', Str ''pageview''),
          (''timestamp'', Num 1767345974789), (''properties'', Obj [])]"

definition ev_props :: jsval where
  "ev_props =
     Obj [(''projectId'', Str ''p1''), (''eventType'', Str ''signup''),
          (''timestamp'', Num 1767345974789),
          (''properties'', Obj [(''plan'', Str ''pro''), (''seats'', Num 12)])]"

definition ev_bare :: jsval where
  "ev_bare =
     Obj [(''projectId'', Str ''p1''), (''eventType'', Str ''pageview''),
          (''timestamp'', Num 1767345974789)]"

definition ev_empty_referrer :: jsval where
  "ev_empty_referrer =
     Obj [(''projectId'', Str ''p1''), (''eventType'', Str ''pageview''),
          (''timestamp'', Num 1767345974789),
          (''properties'', Obj [(''referrer'', Str ''https://a.example/'')]),
          (''context'', Obj [(''page'', Obj [(''url'', Str ''https://sauerer.dev/dashboard''),
                                             (''title'', Str ''Dashboard''),
                                             (''path'', Str ''/dashboard''),
                                             (''referrer'', Str [])])])]"

definition ev_both_paths :: jsval where
  "ev_both_paths =
     Obj [(''projectId'', Str ''p1''), (''eventType'', Str ''pageview''),
          (''timestamp'', Num 1767345974789),
          (''properties'', Obj [(''path'', Str ''/b''), (''title'', Str ''B'')]),
          (''context'', Obj [(''page'', Obj [(''path'', Str ''/a'')])])]"

definition ev_empty_ua :: jsval where
  "ev_empty_ua =
     Obj [(''projectId'', Str ''p1''), (''eventType'', Str ''pageview''),
          (''timestamp'', Num 1767345974789),
          (''context'', Obj [(''userAgent'', Str [])])]"

definition ev_firefox :: jsval where
  "ev_firefox =
     Obj [(''projectId'', Str ''p1''), (''eventType'', Str ''pageview''),
          (''timestamp'', Num 1767345974789),
          (''context'', Obj [(''userAgent'', Str sample_ua)])]"

definition ev_empty_ids :: jsval where
  "ev_empty_ids =
     Obj [(''projectId'', Str ''p1''), (''eventType'', Str ''pageview''),
          (''timestamp'', Num 1767345974789),
          (''sessionId'', Str []), (''userId'', Str []), (''anonymousId'', Str [])]"

definition ev_zeros :: jsval where
  "ev_zeros =
     Obj [(''projectId'', Str ''p1''), (''eventType'', Str ''pageview''),
          (''timestamp'', Num 1767345974789),
          (''context'', Obj [(''screen'', Obj [(''width'', Num 0), (''height'', Num 0)]),
                             (''receivedAt'', Num 0)])]"

text \<open>
  A stand-in for the decoder: it knows four payloads by name and rejects every other one as
  \<^verbatim>\<open>JSON.parse\<close> rejects a text that is not JSON.
\<close>

definition table_decode :: "string \<Rightarrow> error + jsval" where
  "table_decode payload =
     (if payload = ''bare'' then Inr ev_bare
      else if payload = ''null'' then Inr Null
      else if payload = ''firefox'' then Inr ev_firefox
      else if payload = ''no-project'' then Inr ev_no_project
      else Inl SyntaxError)"

definition sample_ids :: "nat \<Rightarrow> string" where
  "sample_ids i = ''id-'' @ show_nat i"

definition sample_clock :: "nat \<Rightarrow> int" where
  "sample_clock i = 1767345975000 + int i"

definition mixed_batch :: "kinesis_record list" where
  "mixed_batch =
     [\<lparr> data = ''bare'', partitionKey = ''p1'', sequenceNumber = ''1'' \<rparr>,
      \<lparr> data = ''{not json'', partitionKey = ''p1'', sequenceNumber = ''2'' \<rparr>,
      \<lparr> data = ''null'', partitionKey = ''p1'', sequenceNumber = ''3'' \<rparr>,
      \<lparr> data = ''firefox'', partitionKey = ''p1'', sequenceNumber = ''4'' \<rparr>]"

definition bad_batch :: "kinesis_record list" where
  "bad_batch =
     [\<lparr> data = ''{not json'', partitionKey = ''p1'', sequenceNumber = ''2'' \<rparr>,
      \<lparr> data = ''null'', partitionKey = ''p1'', sequenceNumber = ''3'' \<rparr>]"

definition refused_batch :: "kinesis_record list" where
  "refused_batch =
     [\<lparr> data = ''bare'', partitionKey = ''p1'', sequenceNumber = ''1'' \<rparr>,
      \<lparr> data = ''no-project'', partitionKey = ''p1'', sequenceNumber = ''5'' \<rparr>]"

text \<open>A database that refuses a row without \<^verbatim>\<open>project_id\<close>, and one that refuses none.\<close>

definition project_not_null :: "js_event list \<Rightarrow> js_event \<Rightarrow> error option" where
  "project_not_null seen row =
     (if nullish (project_id row) then Some (BackendError ''null value in column project_id'')
      else None)"

definition accept_all :: "js_event list \<Rightarrow> js_event \<Rightarrow> error option" where
  "accept_all seen row = None"

definition empty_db :: pg_db where
  "empty_db = \<lparr> committed = [], transaction = Idle \<rparr>"






definition blank_row :: stored_event where
  "blank_row =
     \<lparr> event_id = [], project_id = None, event_type = None, event_time = 0, session_id = None,
       user_id = None, anonymous_id = None, page_url = None, page_title = None, page_path = None,
       page_referrer = None, user_agent = None, browser_name = None, browser_version = None,
       os_name = None, os_version = None, device_type = None, screen_width = None,
       screen_height = None, country = None, city = None, region = None, ip_address = None,
       locale_str = None, properties = None, received_at = 0 \<rparr>"

text \<open>
  A pageview of project \<^verbatim>\<open>p1\<close> at 1767345974789 ms, which is on day 20455 after the epoch.
\<close>

definition pageview_row :: "string \<Rightarrow> string \<Rightarrow> string option \<Rightarrow> stored_event" where
  "pageview_row eid sid ref =
     blank_row\<lparr> event_id := eid, project_id := Some ''p1'', event_type := Some ''pageview'',
                event_time := 1767345974789, session_id := Some sid, page_referrer := ref \<rparr>"

definition day_filter :: QueryFilters where
  "day_filter =
     \<lparr> projectId = ''p1'', startDate = 20455, endDate = 20455, eventType = None, userId = None,
       sessionId = None, pagePath = None, filter_country = None \<rparr>"

definition click_filter :: QueryFilters where
  "click_filter =
     \<lparr> projectId = ''p1'', startDate = 20455, endDate = 20455, eventType = Some ''click'',
       userId = Some ''u9'', sessionId = Some ''s9'', pagePath = Some ''/nowhere'',
       filter_country = Some ''Atlantis'' \<rparr>"

definition referrer_table :: "stored_event list" where
  "referrer_table =
     [pageview_row ''1'' ''s1'' (Some ''https://news.example.org/item?id=1''),
      pageview_row ''2'' ''s1'' (Some ''https://www.google.com/search?q=x''),
      pageview_row ''3'' ''s2'' (Some []),
      pageview_row ''4'' ''s2'' None,
      pageview_row ''5'' ''s3'' (Some ''https://www.google.com/''),
      pageview_row ''6'' ''s4'' (Some ''android-app://com.google.android.gm/'')]"

text \<open>
  Stand-ins for the two functions of ClickHouse: the host of an http or https URL (the empty
  text for anything else), and the exact number of different values that are not null.
\<close>

definition sample_domain :: "string \<Rightarrow> string" where
  "sample_domain ref =
     (case after_scheme ref of None \<Rightarrow> [] | Some rest \<Rightarrow> takeWhile (\<lambda>c. c \<noteq> CHR ''/'') rest)"

definition sample_uniq :: "string option list \<Rightarrow> nat" where
  "sample_uniq vals = length (remdups (List.map_filter (\<lambda>v. v) vals))"

definition on_day :: "int \<Rightarrow> stored_event \<Rightarrow> ch_stored_event" where
  "on_day d r = \<lparr> date_col = d, cols = r \<rparr>"

section \<open>Properties of the normalizer\<close>

text \<open>
  A row is returned exactly on the events on which nothing throws, and its fields are
  these.
\<close>

lemmas transform_eval =
  transformToDatabaseEvent_def parse_user_agent_def Let_def js_or_def js_opt_def stringify_js_def

lemma transform_row:
  assumes "normalizes P event"
  shows "\<exists>row. transformToDatabaseEvent P u n event = Inr row \<and>
     event_id row = u \<and>
     project_id row = js_prop event ''projectId'' \<and>
     event_type row = js_prop event ''eventType'' \<and>
     new_Date (js_prop event ''timestamp'') = Inr (event_time row) \<and>
     session_id row = js_or (js_prop event ''sessionId'') Null \<and>
     user_id row = js_or (js_prop event ''userId'') Null \<and>
     anonymous_id row = js_or (js_prop event ''anonymousId'') Null \<and>
     page_url row = js_or (js_or (context_page_field event ''url'') (properties_field event ''url'')) Null \<and>
     page_title row = js_or (js_or (context_page_field event ''title'') (properties_field event ''title'')) Null \<and>
     page_path row = js_or (js_or (context_page_field event ''path'') (properties_field event ''path'')) Null \<and>
     page_referrer row = js_or (js_or (context_page_field event ''referrer'') (properties_field event ''referrer'')) Null \<and>
     user_agent row = js_or (js_opt (js_prop event ''context'') ''userAgent'') Null \<and>
     parse_user_agent P (js_or (js_opt (js_prop event ''context'') ''userAgent'') Null)
       = Inr (browser_name row, browser_version row, os_name row, os_version row, device_type row) \<and>
     screen_width row = js_or (js_opt (js_opt (js_prop event ''context'') ''screen'') ''width'') Null \<and>
     screen_height row = js_or (js_opt (js_opt (js_prop event ''context'') ''screen'') ''height'') Null \<and>
     properties row = (if truthy (js_prop event ''properties'')
                       then stringify_js (js_prop event ''properties'') else Null) \<and>
     (if truthy (js_opt (js_prop event ''context'') ''receivedAt'')
      then new_Date (js_opt (js_prop event ''context'') ''receivedAt'') = Inr (received_at row)
      else received_at row = DateMs n)"
proof -
  let ?ctx = "js_prop event ''context''"
  let ?ua = "js_or (js_opt ?ctx ''userAgent'') Null"
  from assms have nn: "\<not> nullish event" by (simp add: normalizes_def)
  from assms obtain dev where dev: "parse_user_agent P ?ua = Inr dev"
    by (cases "parse_user_agent P ?ua") (simp_all add: normalizes_def)
  obtain b bv os osv dt where d5: "dev = (b, bv, os, osv, dt)" by (cases dev) auto
  from assms obtain et where et: "new_Date (js_prop event ''timestamp'') = Inr et"
    by (cases "new_Date (js_prop event ''timestamp'')") (simp_all add: normalizes_def)
  have rp: "js_opt ?ctx ''receivedAt'' = js_prop ?ctx ''receivedAt''"
    if "truthy (js_opt ?ctx ''receivedAt'')"
    using that by (auto simp add: js_opt_def split: if_splits)
  have "\<exists>ra. (if truthy (js_opt ?ctx ''receivedAt'') then new_Date (js_prop ?ctx ''receivedAt'')
      else Inr (DateMs n)) = Inr ra"
  proof (cases "truthy (js_opt ?ctx ''receivedAt'')")
    case True
    with assms have "\<not> isl (new_Date (js_opt ?ctx ''receivedAt''))"
      by (simp add: normalizes_def)
    then obtain d where "new_Date (js_opt ?ctx ''receivedAt'') = Inr d"
      by (cases "new_Date (js_opt ?ctx ''receivedAt'')") simp_all
    with True rp show ?thesis by simp
  next
    case False
    then show ?thesis by simp
  qed
  then obtain ra where ra:
    "(if truthy (js_opt ?ctx ''receivedAt'') then new_Date (js_prop ?ctx ''receivedAt'')
      else Inr (DateMs n)) = Inr ra" ..
  show ?thesis
  proof (cases "truthy (js_opt ?ctx ''receivedAt'')")
    case True
    then have e: "js_prop ?ctx ''receivedAt'' = js_opt ?ctx ''receivedAt''" using rp by simp
    from ra True have r: "new_Date (js_opt ?ctx ''receivedAt'') = Inr ra" by (simp add: e)
    from True nn dev d5 et r show ?thesis
      by (simp add: transformToDatabaseEvent_def Let_def context_page_field_def
            properties_field_def e)
  next
    case False
    with nn dev d5 et show ?thesis
      by (simp add: transformToDatabaseEvent_def Let_def context_page_field_def
            properties_field_def)
  qed
qed

lemma row_normalizes:
  assumes "transformToDatabaseEvent P u n event = Inr row"
  shows "normalizes P event"
proof -
  let ?ctx = "js_prop event ''context''"
  have rp: "js_opt ?ctx ''receivedAt'' = js_prop ?ctx ''receivedAt''"
    if "truthy (js_opt ?ctx ''receivedAt'')"
    using that by (auto simp add: js_opt_def split: if_splits)
  show ?thesis
    using assms rp
    by (auto simp add: transformToDatabaseEvent_def Let_def normalizes_def
          split: if_splits sum.splits)
qed

lemma new_Date_throws:
  "new_Date v = Inl err \<Longrightarrow> (\<exists>xs. v = Arr xs) \<or> (\<exists>fs. v = Obj fs)"
  by (cases v) simp_all


lemma first_error_Inl:
  "first_error xs = Inl err \<Longrightarrow> Inl err \<in> set xs"
  by (induction xs) (auto split: sum.splits)

lemma js_toString_throws: "js_toString v = Inl err \<Longrightarrow> err = TypeError"
proof (induction v arbitrary: err rule: js_toString.induct)
  case (6 xs)
  from 6(2) have "first_error (map (\<lambda>x. if nullish x then Inr [] else js_toString x) xs) = Inl err"
    by (simp split: sum.splits)
  then have "Inl err \<in> set (map (\<lambda>x. if nullish x then Inr [] else js_toString x) xs)"
    by (rule first_error_Inl)
  then obtain x where "x \<in> set xs" "\<not> nullish x" "js_toString x = Inl err"
    by (auto split: if_splits)
  with 6(1) show ?case by blast
qed (simp_all split: if_splits)

lemma new_Date_throws_TypeError: "new_Date v = Inl err \<Longrightarrow> err = TypeError"
  by (cases v) (auto simp del: js_toString.simps split: sum.splits dest: js_toString_throws)

text \<open>
  Claim C1, as the spec states it: an input without \<^verbatim>\<open>projectId\<close>, \<^verbatim>\<open>eventType\<close> or
  \<^verbatim>\<open>timestamp\<close> makes the normalizer fail with a ValidationError, and an input that has
  the three never fails, however malformed its optional fields. Neither holds: an event
  without \<^verbatim>\<open>projectId\<close> is normalized, the row's \<^verbatim>\<open>project_id\<close> being undefined; and an
  event that has the three fields and an object with a property \<^verbatim>\<open>toString\<close> for
  \<^verbatim>\<open>context.receivedAt\<close> makes \<^verbatim>\<open>new Date\<close> throw a TypeError.
\<close>

theorem C1_no_validation_and_optional_field_throws:
  "transformToDatabaseEvent blank_parser ''e1'' 0 ev_no_project \<noteq> Inl ValidationError \<and>
   map_sum id project_id (transformToDatabaseEvent blank_parser ''e1'' 0 ev_no_project) = Inr Undefined \<and>
   transformToDatabaseEvent blank_parser ''e1'' 0 ev_bad_received_at = Inl TypeError"
  by (simp add: transform_eval ev_no_project_def ev_bad_received_at_def blank_parser_def)

text \<open>
  Claim C1, amended: the normalizer validates nothing and creates no ValidationError;
  whether \<^verbatim>\<open>projectId\<close>, \<^verbatim>\<open>eventType\<close> and \<^verbatim>\<open>timestamp\<close> are there plays no part in
  whether it fails. It returns a row exactly when the event is neither null nor undefined,
  the parser does not throw on a truthy user agent, and \<^verbatim>\<open>new Date\<close> throws neither on
  the timestamp nor on a truthy \<^verbatim>\<open>receivedAt\<close>; the row then takes \<^verbatim>\<open>projectId\<close> and
  \<^verbatim>\<open>eventType\<close> as they are (undefined when missing) and the date of \<^verbatim>\<open>timestamp\<close> (an
  invalid date when missing). Otherwise it fails with the error of the first step that
  throws: a TypeError for a null event, what the parser throws, or the TypeError of
  \<^verbatim>\<open>new Date\<close>, which only an array or an object can cause.
\<close>

theorem C1_transform_returns_iff_nothing_throws:
  "((\<exists>row. transformToDatabaseEvent P u n event = Inr row) \<longleftrightarrow> normalizes P event) \<and>
   (normalizes P event \<longrightarrow>
      (\<exists>row. transformToDatabaseEvent P u n event = Inr row \<and>
             event_id row = u \<and>
             project_id row = js_prop event ''projectId'' \<and>
             event_type row = js_prop event ''eventType'' \<and>
             new_Date (js_prop event ''timestamp'') = Inr (event_time row))) \<and>
   (nullish event \<longrightarrow> transformToDatabaseEvent P u n event = Inl TypeError) \<and>
   (\<not> nullish event \<and> truthy (js_opt (js_prop event ''context'') ''userAgent'') \<and>
    P (js_opt (js_prop event ''context'') ''userAgent'') = Inl err \<longrightarrow>
      transformToDatabaseEvent P u n event = Inl err) \<and>
   (\<not> nullish event \<and>
    \<not> isl (parse_user_agent P (js_or (js_opt (js_prop event ''context'') ''userAgent'') Null)) \<and>
    new_Date (js_prop event ''timestamp'') = Inl err \<longrightarrow>
      transformToDatabaseEvent P u n event = Inl TypeError) \<and>
   (\<not> nullish event \<and>
    \<not> isl (parse_user_agent P (js_or (js_opt (js_prop event ''context'') ''userAgent'') Null)) \<and>
    \<not> isl (new_Date (js_prop event ''timestamp'')) \<and>
    truthy (js_opt (js_prop event ''context'') ''receivedAt'') \<and>
    new_Date (js_opt (js_prop event ''context'') ''receivedAt'') = Inl err \<longrightarrow>
      transformToDatabaseEvent P u n event = Inl TypeError) \<and>
   (transformToDatabaseEvent P u n event = Inl ValidationError \<longrightarrow>
      P (js_opt (js_prop event ''context'') ''userAgent'') = Inl ValidationError) \<and>
   (js_prop event ''timestamp'' = Undefined \<longrightarrow>
      new_Date (js_prop event ''timestamp'') = Inr InvalidDate) \<and>
   (\<forall>v e. new_Date v = Inl e \<longrightarrow> e = TypeError \<and> ((\<exists>xs. v = Arr xs) \<or> (\<exists>fs. v = Obj fs)))"
proof -
  let ?ctx = "js_prop event ''context''"
  let ?ua = "js_opt ?ctx ''userAgent''"
  let ?T = "transformToDatabaseEvent P u n event"
  have rp: "js_prop ?ctx ''receivedAt'' = js_opt ?ctx ''receivedAt''"
    if "truthy (js_opt ?ctx ''receivedAt'')"
    using that by (auto simp add: js_opt_def split: if_splits)
  have a: "(\<exists>row. ?T = Inr row) \<longleftrightarrow> normalizes P event"
    using transform_row [of P event u n] row_normalizes [of P u n event] by blast
  have b: "normalizes P event \<longrightarrow>
      (\<exists>row. ?T = Inr row \<and> event_id row = u \<and> project_id row = js_prop event ''projectId'' \<and>
             event_type row = js_prop event ''eventType'' \<and>
             new_Date (js_prop event ''timestamp'') = Inr (event_time row))"
    using transform_row [of P event u n] by blast
  have c: "nullish event \<longrightarrow> ?T = Inl TypeError"
    by (simp add: transformToDatabaseEvent_def)
  have d: "\<not> nullish event \<and> truthy ?ua \<and> P ?ua = Inl err \<longrightarrow> ?T = Inl err"
    by (simp add: transformToDatabaseEvent_def Let_def parse_user_agent_def js_or_def)
  have e: "\<not> nullish event \<and> \<not> isl (parse_user_agent P (js_or ?ua Null)) \<and>
      new_Date (js_prop event ''timestamp'') = Inl err \<longrightarrow> ?T = Inl TypeError"
    using new_Date_throws_TypeError [of "js_prop event ''timestamp''" err]
    by (cases "parse_user_agent P (js_or ?ua Null)")
       (auto simp add: transformToDatabaseEvent_def Let_def)
  have f: "\<not> nullish event \<and> \<not> isl (parse_user_agent P (js_or ?ua Null)) \<and>
      \<not> isl (new_Date (js_prop event ''timestamp'')) \<and>
      truthy (js_opt ?ctx ''receivedAt'') \<and>
      new_Date (js_opt ?ctx ''receivedAt'') = Inl err \<longrightarrow> ?T = Inl TypeError"
    using new_Date_throws_TypeError [of "js_opt ?ctx ''receivedAt''" err] rp
    by (cases "parse_user_agent P (js_or ?ua Null)"; cases "new_Date (js_prop event ''timestamp'')")
       (auto simp add: transformToDatabaseEvent_def Let_def)
  have g: "?T = Inl ValidationError \<longrightarrow> P ?ua = Inl ValidationError"
  proof
    assume v: "?T = Inl ValidationError"
    then have nn: "\<not> nullish event" by (auto simp add: transformToDatabaseEvent_def split: if_splits)
    show "P ?ua = Inl ValidationError"
    proof (cases "parse_user_agent P (js_or ?ua Null)")
      case (Inl x)
      with v nn have "x = ValidationError"
        by (simp add: transformToDatabaseEvent_def Let_def)
      with Inl show ?thesis
        by (auto simp add: parse_user_agent_def js_or_def split: if_splits sum.splits)
    next
      case (Inr dev)
      obtain b bv os osv dt where "dev = (b, bv, os, osv, dt)" by (cases dev) auto
      with Inr v nn have "new_Date (js_prop event ''timestamp'') = Inl ValidationError \<or>
          new_Date (js_prop ?ctx ''receivedAt'') = Inl ValidationError"
        by (auto simp add: transformToDatabaseEvent_def Let_def split: sum.splits if_splits)
      then show ?thesis using new_Date_throws_TypeError by fastforce
    qed
  qed
  have h: "js_prop event ''timestamp'' = Undefined \<longrightarrow>
      new_Date (js_prop event ''timestamp'') = Inr InvalidDate"
    by simp
  have i: "\<forall>v e. new_Date v = Inl e \<longrightarrow> e = TypeError \<and> ((\<exists>xs. v = Arr xs) \<or> (\<exists>fs. v = Obj fs))"
    using new_Date_throws_TypeError new_Date_throws by blast
  from a b c d e f g h i show ?thesis by blast
qed

lemmas json_eval = quote_def quote_char_def show_int_def show_nat.simps digit_char_def

lemmas normalizes_eval =
  normalizes_def parse_user_agent_def blank_parser_def js_or_def js_opt_def

text \<open>
  The amended C1 at the payload \<^verbatim>\<open>null\<close>, at an event without \<^verbatim>\<open>projectId\<close>, at an
  event whose user agent is an object, on which the parser throws, and at an event whose
  \<^verbatim>\<open>receivedAt\<close> has no primitive form.
\<close>

theorem C1_transform_returns_witness:
  "transformToDatabaseEvent blank_parser ''e1'' 0 Null = Inl TypeError \<and>
   (\<exists>row. transformToDatabaseEvent blank_parser ''e1'' 0 ev_no_project = Inr row \<and>
          event_id row = ''e1'' \<and> project_id row = Undefined \<and>
          event_type row = Str ''pageview'' \<and> event_time row = DateMs 1767345974789) \<and>
   transformToDatabaseEvent sample_parser ''e1'' 0 ev_object_ua = Inl TypeError \<and>
   transformToDatabaseEvent blank_parser ''e1'' 0 ev_bad_received_at = Inl TypeError \<and>
   \<not> normalizes blank_parser ev_bad_received_at"
proof -
  have n1: "normalizes blank_parser ev_no_project"
    by (simp add: normalizes_eval ev_no_project_def)
  have n2: "\<not> normalizes blank_parser ev_bad_received_at"
    by (simp add: normalizes_eval ev_bad_received_at_def)
  show ?thesis
    using C1_transform_returns_iff_nothing_throws [of blank_parser "''e1''" 0 Null TypeError]
          C1_transform_returns_iff_nothing_throws [of blank_parser "''e1''" 0 ev_no_project TypeError]
          C1_transform_returns_iff_nothing_throws [of sample_parser "''e1''" 0 ev_object_ua TypeError]
          C1_transform_returns_iff_nothing_throws [of blank_parser "''e1''" 0 ev_bad_received_at TypeError]
          n1 n2
    by (auto simp add: ev_no_project_def ev_object_ua_def ev_bad_received_at_def
          sample_parser_def js_opt_def parse_user_agent_def blank_parser_def js_or_def)
qed

text \<open>
  Claim C5, as the spec states it: an empty \<^verbatim>\<open>properties\<close> object is stored as null. It is
  not: an empty object is truthy, and the row holds its serialization, the text \<^verbatim>\<open>{}\<close>.
\<close>

theorem C5_empty_properties_serialized:
  "map_sum id properties (transformToDatabaseEvent blank_parser ''e1'' 0 ev_empty_props)
     = Inr (Str ''{}'')"
  by (simp add: transform_eval ev_empty_props_def)

text \<open>
  Claim C5, amended: on every event that is normalized, the row's \<^verbatim>\<open>properties\<close> is the
  JSON serialization of the input's \<^verbatim>\<open>properties\<close> whenever that is an object, the empty
  object included (which gives \<^verbatim>\<open>{}\<close>), and null when \<^verbatim>\<open>properties\<close> is absent or null.
\<close>

theorem C5_properties_serialized_when_present:
  "normalizes P event \<Longrightarrow>
   \<exists>row. transformToDatabaseEvent P u n event = Inr row \<and>
     (\<forall>fs. js_prop event ''properties'' = Obj fs \<longrightarrow>
        (\<exists>s. JSON_stringify (Obj fs) = Some s \<and> properties row = Str s)) \<and>
     (js_prop event ''properties'' = Obj [] \<longrightarrow> properties row = Str ''{}'') \<and>
     (js_prop event ''properties'' = Undefined \<longrightarrow> properties row = Null) \<and>
     (js_prop event ''properties'' = Null \<longrightarrow> properties row = Null)"
proof -
  assume "normalizes P event"
  from transform_row [OF this, of u n] obtain row where
    r: "transformToDatabaseEvent P u n event = Inr row"
       "properties row = (if truthy (js_prop event ''properties'')
                       then stringify_js (js_prop event ''properties'') else Null)"
    by blast
  then show ?thesis by (auto simp add: stringify_js_def)
qed

text \<open>
  The amended C5 at an event with two properties, at one with the empty object and at one
  without \<^verbatim>\<open>properties\<close>.
\<close>

theorem C5_properties_witness:
  \<open>(\<exists>row. transformToDatabaseEvent blank_parser ''e1'' 0 ev_props = Inr row \<and>
          properties row = Str ''{"plan":"pro","seats":12}'') \<and>
   (\<exists>row. transformToDatabaseEvent blank_parser ''e1'' 0 ev_empty_props = Inr row \<and>
          properties row = Str ''{}'') \<and>
   (\<exists>row. transformToDatabaseEvent blank_parser ''e1'' 0 ev_bare = Inr row \<and>
          properties row = Null)\<close>
proof -
  have n: "normalizes blank_parser ev_props" "normalizes blank_parser ev_empty_props"
    "normalizes blank_parser ev_bare"
    by (simp_all add: normalizes_eval ev_props_def ev_empty_props_def ev_bare_def)
  show ?thesis
    using C5_properties_serialized_when_present [OF n(1), of "''e1''" 0] C5_properties_serialized_when_present [OF n(2), of "''e1''" 0]
          C5_properties_serialized_when_present [OF n(3), of "''e1''" 0]
    by (simp add: ev_props_def ev_empty_props_def ev_bare_def json_eval)
qed

text \<open>
  Claim C6, as the spec states it: a page field that \<^verbatim>\<open>context.page\<close> supplies wins over
  the one in \<^verbatim>\<open>properties\<close>. With \<^verbatim>\<open>context.page.referrer\<close> the empty string (what a
  browser reports for a direct visit) and a referrer in \<^verbatim>\<open>properties\<close>, the row takes the
  one of \<^verbatim>\<open>properties\<close>.
\<close>

theorem C6_empty_context_referrer_loses:
  "map_sum id page_referrer (transformToDatabaseEvent blank_parser ''e1'' 0 ev_empty_referrer)
     = Inr (Str ''https://a.example/'')"
  by (simp add: transform_eval ev_empty_referrer_def blank_parser_def)

text \<open>
  Claim C6, amended: on every event that is normalized, each of the four page fields of
  the row is the value of \<^verbatim>\<open>context.page\<close> when that is present and truthy (for a string:
  not empty), otherwise the value of the field of the same name in \<^verbatim>\<open>properties\<close> when
  that is truthy, otherwise null; a truthy value of \<^verbatim>\<open>context.page\<close> wins over any value
  in \<^verbatim>\<open>properties\<close>.
\<close>

theorem C6_page_fields_context_then_properties:
  "normalizes P event \<Longrightarrow>
   \<exists>row. transformToDatabaseEvent P u n event = Inr row \<and>
     page_url row =
       (if truthy (context_page_field event ''url'') then context_page_field event ''url''
        else if truthy (properties_field event ''url'') then properties_field event ''url''
        else Null) \<and>
     page_title row =
       (if truthy (context_page_field event ''title'') then context_page_field event ''title''
        else if truthy (properties_field event ''title'') then properties_field event ''title''
        else Null) \<and>
     page_path row =
       (if truthy (context_page_field event ''path'') then context_page_field event ''path''
        else if truthy (properties_field event ''path'') then properties_field event ''path''
        else Null) \<and>
     page_referrer row =
       (if truthy (context_page_field event ''referrer'') then context_page_field event ''referrer''
        else if truthy (properties_field event ''referrer'') then properties_field event ''referrer''
        else Null)"
proof -
  assume "normalizes P event"
  from transform_row [OF this, of u n] obtain row where
    "transformToDatabaseEvent P u n event = Inr row"
    "page_url row = js_or (js_or (context_page_field event ''url'') (properties_field event ''url'')) Null"
    "page_title row = js_or (js_or (context_page_field event ''title'') (properties_field event ''title'')) Null"
    "page_path row = js_or (js_or (context_page_field event ''path'') (properties_field event ''path'')) Null"
    "page_referrer row = js_or (js_or (context_page_field event ''referrer'') (properties_field event ''referrer'')) Null"
    by blast
  then show ?thesis by (simp add: js_or_def)
qed

text \<open>
  The amended C6 at the spec's example: \<^verbatim>\<open>context.page.path = "/a"\<close> and
  \<^verbatim>\<open>properties.path = "/b"\<close> give \<^verbatim>\<open>"/a"\<close>; the title comes from \<^verbatim>\<open>properties\<close>.
\<close>

theorem C6_page_fields_witness:
  "\<exists>row. transformToDatabaseEvent blank_parser ''e1'' 0 ev_both_paths = Inr row \<and>
     page_url row = Null \<and> page_title row = Str ''B'' \<and> page_path row = Str ''/a'' \<and>
     page_referrer row = Null"
proof -
  have n: "normalizes blank_parser ev_both_paths"
    by (simp add: normalizes_eval ev_both_paths_def)
  show ?thesis
    using C6_page_fields_context_then_properties [OF n, of "''e1''" 0]
    by (simp add: ev_both_paths_def context_page_field_def properties_field_def js_opt_def)
qed

text \<open>
  Claim C7, as the spec states it: when the context contains a user-agent string and the
  parser classifies no device type, \<^verbatim>\<open>deviceType\<close> is \<^verbatim>\<open>"desktop"\<close>. With the empty
  string for the user agent the parser is not run and \<^verbatim>\<open>deviceType\<close> is null.
\<close>

theorem C7_empty_user_agent_no_desktop:
  "map_sum id device_type (transformToDatabaseEvent blank_parser ''e1'' 0 ev_empty_ua) = Inr Null"
  by (simp add: transform_eval ev_empty_ua_def blank_parser_def)

text \<open>
  Claim C7, amended: on every event that is normalized, when the context contains a truthy
  user agent (for a string: not empty), \<^verbatim>\<open>deviceType\<close> is \<^verbatim>\<open>"desktop"\<close> whenever the
  parser gives no device type, and each of browser name, browser version, OS name and OS
  version that the parser does not give is null by itself; when the user agent is absent,
  null or the empty string, all five device fields are null.
\<close>

theorem C7_device_fields:
  "normalizes P event \<Longrightarrow>
   \<exists>row. transformToDatabaseEvent P u n event = Inr row \<and>
     (truthy (js_opt (js_prop event ''context'') ''userAgent'') \<longrightarrow>
        (\<exists>parsed. P (js_opt (js_prop event ''context'') ''userAgent'') = Inr parsed \<and>
           (\<not> truthy (parsed_device_type parsed) \<longrightarrow> device_type row = Str ''desktop'') \<and>
           (\<not> truthy (parsed_browser_name parsed) \<longrightarrow> browser_name row = Null) \<and>
           (\<not> truthy (parsed_browser_version parsed) \<longrightarrow> browser_version row = Null) \<and>
           (\<not> truthy (parsed_os_name parsed) \<longrightarrow> os_name row = Null) \<and>
           (\<not> truthy (parsed_os_version parsed) \<longrightarrow> os_version row = Null))) \<and>
     (\<not> truthy (js_opt (js_prop event ''context'') ''userAgent'') \<longrightarrow>
        browser_name row = Null \<and> browser_version row = Null \<and> os_name row = Null \<and>
        os_version row = Null \<and> device_type row = Null)"
proof -
  assume "normalizes P event"
  from transform_row [OF this, of u n] obtain row where
    r: "transformToDatabaseEvent P u n event = Inr row"
       "parse_user_agent P (js_or (js_opt (js_prop event ''context'') ''userAgent'') Null)
          = Inr (browser_name row, browser_version row, os_name row, os_version row, device_type row)"
    by blast
  from r(2) have
    "(truthy (js_opt (js_prop event ''context'') ''userAgent'') \<longrightarrow>
        (\<exists>parsed. P (js_opt (js_prop event ''context'') ''userAgent'') = Inr parsed \<and>
           (\<not> truthy (parsed_device_type parsed) \<longrightarrow> device_type row = Str ''desktop'') \<and>
           (\<not> truthy (parsed_browser_name parsed) \<longrightarrow> browser_name row = Null) \<and>
           (\<not> truthy (parsed_browser_version parsed) \<longrightarrow> browser_version row = Null) \<and>
           (\<not> truthy (parsed_os_name parsed) \<longrightarrow> os_name row = Null) \<and>
           (\<not> truthy (parsed_os_version parsed) \<longrightarrow> os_version row = Null))) \<and>
     (\<not> truthy (js_opt (js_prop event ''context'') ''userAgent'') \<longrightarrow>
        browser_name row = Null \<and> browser_version row = Null \<and> os_name row = Null \<and>
        os_version row = Null \<and> device_type row = Null)"
    by (auto simp add: parse_user_agent_def js_or_def split: if_splits sum.splits)
  with r(1) show ?thesis by blast
qed

text \<open>
  The amended C7 at a user agent of which the parser knows browser and OS name only, and
  at an event without context.
\<close>

theorem C7_device_fields_witness:
  "(\<exists>row. transformToDatabaseEvent sample_parser ''e1'' 0 ev_firefox = Inr row \<and>
          device_type row = Str ''desktop'' \<and> os_version row = Null) \<and>
   (\<exists>row. transformToDatabaseEvent sample_parser ''e1'' 0 ev_bare = Inr row \<and>
          browser_name row = Null \<and> browser_version row = Null \<and> os_name row = Null \<and>
          os_version row = Null \<and> device_type row = Null)"
proof -
  have n: "normalizes sample_parser ev_firefox" "normalizes sample_parser ev_bare"
    by (simp_all add: normalizes_def parse_user_agent_def js_or_def js_opt_def sample_parser_def
          sample_ua_def ev_firefox_def ev_bare_def)
  show ?thesis
    using C7_device_fields [OF n(1), of "''e1''" 0] C7_device_fields [OF n(2), of "''e1''" 0]
    by (auto simp add: ev_firefox_def ev_bare_def sample_parser_def sample_ua_def js_opt_def)
qed

lemma transform_cong:
  assumes "nullish e = nullish e'"
    and "js_prop e ''context'' = js_prop e' ''context''"
    and "js_prop e ''properties'' = js_prop e' ''properties''"
    and "js_prop e ''projectId'' = js_prop e' ''projectId''"
    and "js_prop e ''eventType'' = js_prop e' ''eventType''"
    and "js_prop e ''timestamp'' = js_prop e' ''timestamp''"
    and "js_or (js_prop e ''sessionId'') Null = js_or (js_prop e' ''sessionId'') Null"
    and "js_or (js_prop e ''userId'') Null = js_or (js_prop e' ''userId'') Null"
    and "js_or (js_prop e ''anonymousId'') Null = js_or (js_prop e' ''anonymousId'') Null"
  shows "transformToDatabaseEvent P u n e = transformToDatabaseEvent P u n e'"
  unfolding transformToDatabaseEvent_def assms ..

lemma empty_id_as_absent:
  assumes k: "k \<in> {''sessionId'', ''userId'', ''anonymousId''}" and a: "map_of fs k = None"
  shows "transformToDatabaseEvent P u n (Obj ((k, Str []) # fs)) = transformToDatabaseEvent P u n (Obj fs)"
proof (rule transform_cong)
  show "nullish (Obj ((k, Str []) # fs)) = nullish (Obj fs)" by simp
  show "js_prop (Obj ((k, Str []) # fs)) ''context'' = js_prop (Obj fs) ''context''"
    using k by auto
  show "js_prop (Obj ((k, Str []) # fs)) ''properties'' = js_prop (Obj fs) ''properties''"
    using k by auto
  show "js_prop (Obj ((k, Str []) # fs)) ''projectId'' = js_prop (Obj fs) ''projectId''"
    using k by auto
  show "js_prop (Obj ((k, Str []) # fs)) ''eventType'' = js_prop (Obj fs) ''eventType''"
    using k by auto
  show "js_prop (Obj ((k, Str []) # fs)) ''timestamp'' = js_prop (Obj fs) ''timestamp''"
    using k by auto
  show "js_or (js_prop (Obj ((k, Str []) # fs)) ''sessionId'') Null
      = js_or (js_prop (Obj fs) ''sessionId'') Null"
    using k a by (auto simp add: js_or_def)
  show "js_or (js_prop (Obj ((k, Str []) # fs)) ''userId'') Null
      = js_or (js_prop (Obj fs) ''userId'') Null"
    using k a by (auto simp add: js_or_def)
  show "js_or (js_prop (Obj ((k, Str []) # fs)) ''anonymousId'') Null
      = js_or (js_prop (Obj fs) ''anonymousId'') Null"
    using k a by (auto simp add: js_or_def)
qed

text \<open>
  Claim C9: when \<^verbatim>\<open>sessionId\<close>, \<^verbatim>\<open>userId\<close> or \<^verbatim>\<open>anonymousId\<close> is the empty string, the
  row of the event holds null for it; and an event with one of them empty has the very
  outcome of the same event without that field, the same row or the same error.
\<close>

theorem C9_empty_id_stored_as_null:
  "(js_prop event ''sessionId'' = Str [] \<and> normalizes P event \<longrightarrow>
      (\<exists>row. transformToDatabaseEvent P u n event = Inr row \<and> session_id row = Null)) \<and>
   (js_prop event ''userId'' = Str [] \<and> normalizes P event \<longrightarrow>
      (\<exists>row. transformToDatabaseEvent P u n event = Inr row \<and> user_id row = Null)) \<and>
   (js_prop event ''anonymousId'' = Str [] \<and> normalizes P event \<longrightarrow>
      (\<exists>row. transformToDatabaseEvent P u n event = Inr row \<and> anonymous_id row = Null)) \<and>
   (k \<in> {''sessionId'', ''userId'', ''anonymousId''} \<and> map_of fs k = None \<longrightarrow>
      transformToDatabaseEvent P u n (Obj ((k, Str []) # fs)) = transformToDatabaseEvent P u n (Obj fs))"
proof (intro conjI impI)
  assume h: "js_prop event ''sessionId'' = Str [] \<and> normalizes P event"
  with transform_row [of P event u n]
  show "\<exists>row. transformToDatabaseEvent P u n event = Inr row \<and> session_id row = Null"
    by (auto simp add: js_or_def)
next
  assume h: "js_prop event ''userId'' = Str [] \<and> normalizes P event"
  with transform_row [of P event u n]
  show "\<exists>row. transformToDatabaseEvent P u n event = Inr row \<and> user_id row = Null"
    by (auto simp add: js_or_def)
next
  assume h: "js_prop event ''anonymousId'' = Str [] \<and> normalizes P event"
  with transform_row [of P event u n]
  show "\<exists>row. transformToDatabaseEvent P u n event = Inr row \<and> anonymous_id row = Null"
    by (auto simp add: js_or_def)
next
  assume "k \<in> {''sessionId'', ''userId'', ''anonymousId''} \<and> map_of fs k = None"
  then show "transformToDatabaseEvent P u n (Obj ((k, Str []) # fs)) = transformToDatabaseEvent P u n (Obj fs)"
    using empty_id_as_absent by blast
qed

text \<open>
  C9 at an event whose three ids are the empty string, and at the pair of an event with an
  empty \<^verbatim>\<open>sessionId\<close> and the same event without it.
\<close>

theorem C9_empty_id_witness:
  "(\<exists>row. transformToDatabaseEvent blank_parser ''e1'' 0 ev_empty_ids = Inr row \<and>
          session_id row = Null \<and> user_id row = Null \<and> anonymous_id row = Null) \<and>
   transformToDatabaseEvent blank_parser ''e1'' 0
       (Obj [(''sessionId'', Str []), (''projectId'', Str ''p1'')])
     = transformToDatabaseEvent blank_parser ''e1'' 0 (Obj [(''projectId'', Str ''p1'')])"
proof -
  have n: "normalizes blank_parser ev_empty_ids"
    by (simp add: normalizes_eval ev_empty_ids_def)
  show ?thesis
    using C9_empty_id_stored_as_null [of ev_empty_ids blank_parser "''e1''" 0 "''sessionId''"
            "[(''projectId'', Str ''p1'')]"] n
    by (auto simp add: ev_empty_ids_def)
qed

text \<open>
  Claim C10: in the row of an event, a \<^verbatim>\<open>context.screen.width\<close> or
  \<^verbatim>\<open>context.screen.height\<close> of 0 is stored as null, and a \<^verbatim>\<open>context.receivedAt\<close> of 0 is
  replaced by the current time.
\<close>

theorem C10_zero_treated_as_absent:
  "(js_opt (js_opt (js_prop event ''context'') ''screen'') ''width'' = Num 0 \<and> normalizes P event \<longrightarrow>
      (\<exists>row. transformToDatabaseEvent P u n event = Inr row \<and> screen_width row = Null)) \<and>
   (js_opt (js_opt (js_prop event ''context'') ''screen'') ''height'' = Num 0 \<and> normalizes P event \<longrightarrow>
      (\<exists>row. transformToDatabaseEvent P u n event = Inr row \<and> screen_height row = Null)) \<and>
   (js_opt (js_prop event ''context'') ''receivedAt'' = Num 0 \<and> normalizes P event \<longrightarrow>
      (\<exists>row. transformToDatabaseEvent P u n event = Inr row \<and> received_at row = DateMs n))"
proof (intro conjI impI)
  assume "js_opt (js_opt (js_prop event ''context'') ''screen'') ''width'' = Num 0 \<and> normalizes P event"
  with transform_row [of P event u n]
  show "\<exists>row. transformToDatabaseEvent P u n event = Inr row \<and> screen_width row = Null"
    by (auto simp add: js_or_def)
next
  assume "js_opt (js_opt (js_prop event ''context'') ''screen'') ''height'' = Num 0 \<and> normalizes P event"
  with transform_row [of P event u n]
  show "\<exists>row. transformToDatabaseEvent P u n event = Inr row \<and> screen_height row = Null"
    by (auto simp add: js_or_def)
next
  assume "js_opt (js_prop event ''context'') ''receivedAt'' = Num 0 \<and> normalizes P event"
  with transform_row [of P event u n]
  show "\<exists>row. transformToDatabaseEvent P u n event = Inr row \<and> received_at row = DateMs n"
    by auto
qed

text \<open>
  C10 at an event whose screen is 0 by 0 and whose \<^verbatim>\<open>receivedAt\<close> is 0.
\<close>

theorem C10_zero_witness:
  "\<exists>row. transformToDatabaseEvent blank_parser ''e1'' 1767345975000 ev_zeros = Inr row \<and>
     screen_width row = Null \<and> screen_height row = Null \<and> received_at row = DateMs 1767345975000"
proof -
  have n: "normalizes blank_parser ev_zeros"
    by (simp add: normalizes_eval ev_zeros_def)
  show ?thesis
    using C10_zero_treated_as_absent [of ev_zeros blank_parser "''e1''" 1767345975000] n
    by (auto simp add: ev_zeros_def js_opt_def)
qed

section \<open>Properties of the handler\<close>

lemma process_records_eq:
  "process_records d P ids clk i recs acc lg =
     (acc @ normalized_rows d P ids clk i recs, lg @ failure_entries d P ids clk i recs)"
  by (induction recs arbitrary: i acc lg) (simp_all split: sum.splits)

text \<open>
  Claim C4: a payload that fails to decode or to normalize is logged and skipped, and the
  loop goes on; when no payload normalizes, the handler returns normally without any call
  of \<^verbatim>\<open>insertEvents\<close> and leaves the storage as it was; otherwise it calls
  \<^verbatim>\<open>insertEvents\<close> exactly once, with all the rows that normalized, in the order of the
  batch, and it throws exactly when that call throws, with the same error. Every record
  gives either a row or one log entry of its failure.
\<close>

theorem C4_handler_skips_failures_and_inserts_once:
  "(normalized_rows d P ids clk 0 Records = [] \<longrightarrow>
      handler d P ids clk ins Records db =
        \<lparr> threw = None,
          logs = Info_processing (length Records) # failure_entries d P ids clk 0 Records
                 @ [Info_no_valid_events],
          insert_calls = [], storage = db \<rparr>) \<and>
   (normalized_rows d P ids clk 0 Records \<noteq> [] \<longrightarrow>
      insert_calls (handler d P ids clk ins Records db) = [normalized_rows d P ids clk 0 Records] \<and>
      threw (handler d P ids clk ins Records db) = fst (ins (normalized_rows d P ids clk 0 Records) db) \<and>
      storage (handler d P ids clk ins Records db) = snd (ins (normalized_rows d P ids clk 0 Records) db) \<and>
      logs (handler d P ids clk ins Records db) =
        Info_processing (length Records) # failure_entries d P ids clk 0 Records
        @ [Info_transformed (length (normalized_rows d P ids clk 0 Records)),
           (case fst (ins (normalized_rows d P ids clk 0 Records) db) of
              None \<Rightarrow> Info_inserted (length (normalized_rows d P ids clk 0 Records))
            | Some err \<Rightarrow> Error_failed_to_insert err)]) \<and>
   length (normalized_rows d P ids clk 0 Records) + length (failure_entries d P ids clk 0 Records)
     = length Records"
proof -
  have len: "length (normalized_rows d P ids clk i recs) + length (failure_entries d P ids clk i recs)
     = length recs" for i recs
    by (induction recs arbitrary: i) (simp_all split: sum.splits)
  show ?thesis
    by (cases "ins (normalized_rows d P ids clk 0 Records) db")
       (auto simp add: handler_def process_records_eq len split: option.splits)
qed

lemmas handler_eval =
  try_record_def table_decode_def transform_eval ev_bare_def ev_firefox_def ev_no_project_def
  sample_parser_def sample_ua_def sample_ids_def sample_clock_def show_nat.simps digit_char_def

lemmas insert_eval =
  DSQL_insertEvents_def catch_rollback_def accept_all_def project_not_null_def empty_db_def

text \<open>
  C4 at a batch of four payloads of which the second is not JSON and the third is
  \<^verbatim>\<open>null\<close>, at a batch in which no payload normalizes, and at a batch whose insert the
  database refuses.
\<close>

theorem C4_handler_witness:
  "map (map event_id)
     (insert_calls (handler table_decode sample_parser sample_ids sample_clock
        (DSQL_insertEvents accept_all) mixed_batch empty_db)) = [[''id-0'', ''id-3'']] \<and>
   threw (handler table_decode sample_parser sample_ids sample_clock
        (DSQL_insertEvents accept_all) mixed_batch empty_db) = None \<and>
   logs (handler table_decode sample_parser sample_ids sample_clock
        (DSQL_insertEvents accept_all) mixed_batch empty_db)
     = [Info_processing 4, Error_failed_to_parse SyntaxError ''p1'' ''2'',
        Error_failed_to_parse TypeError ''p1'' ''3'', Info_transformed 2, Info_inserted 2] \<and>
   handler table_decode sample_parser sample_ids sample_clock
        (DSQL_insertEvents accept_all) bad_batch empty_db
     = \<lparr> threw = None,
         logs = [Info_processing 2, Error_failed_to_parse SyntaxError ''p1'' ''2'',
                 Error_failed_to_parse TypeError ''p1'' ''3'', Info_no_valid_events],
         insert_calls = [], storage = empty_db \<rparr> \<and>
   threw (handler table_decode sample_parser sample_ids sample_clock
        (DSQL_insertEvents project_not_null) refused_batch empty_db)
     = Some (BackendError ''null value in column project_id'') \<and>
   storage (handler table_decode sample_parser sample_ids sample_clock
        (DSQL_insertEvents project_not_null) refused_batch empty_db) = empty_db"
  using C4_handler_skips_failures_and_inserts_once [where d = table_decode and P = sample_parser
          and ids = sample_ids and clk = sample_clock and ins = "DSQL_insertEvents accept_all"
          and Records = mixed_batch and db = empty_db]
        C4_handler_skips_failures_and_inserts_once [where d = table_decode and P = sample_parser
          and ids = sample_ids and clk = sample_clock and ins = "DSQL_insertEvents accept_all"
          and Records = bad_batch and db = empty_db]
        C4_handler_skips_failures_and_inserts_once [where d = table_decode and P = sample_parser
          and ids = sample_ids and clk = sample_clock and ins = "DSQL_insertEvents project_not_null"
          and Records = refused_batch and db = empty_db]
  by (simp add: mixed_batch_def bad_batch_def refused_batch_def handler_eval insert_eval)

section \<open>Properties of insertEvents\<close>




section \<open>Properties of the read operations\<close>

text \<open>
  Claim C2, as the spec states it: an \<^verbatim>\<open>eventType\<close> in the filter is applied as an exact
  match. It is not: with \<^verbatim>\<open>eventType = "click"\<close> (and a user, session, path and country
  that no row has) \<^verbatim>\<open>getOverview\<close> still counts a pageview row.
\<close>

theorem C2_optional_filters_ignored:
  "totalEvents (DSQL_getOverview click_filter
      [pageview_row ''1'' ''s1'' (Some ''https://www.google.com/'')]) = 1"
  by (simp add: DSQL_getOverview_def DSQL_getOverview_where_def DSQL_where_def click_filter_def
        pageview_row_def blank_row_def ms_per_day_def Let_def)

lemma DSQL_where_cong:
  "projectId f = projectId g \<Longrightarrow> startDate f = startDate g \<Longrightarrow> endDate f = endDate g \<Longrightarrow>
   DSQL_where f = DSQL_where g"
  by (rule ext) (simp add: DSQL_where_def)

lemma ClickHouse_where_cong:
  "projectId f = projectId g \<Longrightarrow> startDate f = startDate g \<Longrightarrow> endDate f = endDate g \<Longrightarrow>
   ClickHouse_where f = ClickHouse_where g"
  by (rule ext) (simp add: ClickHouse_where_def)

lemmas DSQL_where_defs =
  DSQL_getOverview_where_def DSQL_getPageViews_where_def DSQL_getReferrers_where_def
  DSQL_getDeviceStats_device_where_def DSQL_getDeviceStats_browser_where_def
  DSQL_getDeviceStats_os_where_def DSQL_getGeoStats_where_def DSQL_getTimeSeries_where_def
  DSQL_getWebVitals_where_def

lemmas ClickHouse_where_defs =
  ClickHouse_getOverview_where_def ClickHouse_getPageViews_where_def ClickHouse_getReferrers_where_def
  ClickHouse_getDeviceStats_device_where_def ClickHouse_getDeviceStats_browser_where_def
  ClickHouse_getDeviceStats_os_where_def ClickHouse_getGeoStats_where_def ClickHouse_getTimeSeries_where_def
  ClickHouse_getWebVitals_where_def

text \<open>
  Claim C2, amended: every one of the seven read operations, in both adapters, selects its
  rows by the exact match of \<^verbatim>\<open>projectId\<close> and the range from \<^verbatim>\<open>startDate\<close> to the end
  of \<^verbatim>\<open>endDate\<close> (and by its own fixed conditions), and reads no other field of the
  filter: two filters with the same \<^verbatim>\<open>projectId\<close>, \<^verbatim>\<open>startDate\<close> and \<^verbatim>\<open>endDate\<close> select
  the same rows in each query, whatever their \<^verbatim>\<open>eventType\<close>, \<^verbatim>\<open>userId\<close>, \<^verbatim>\<open>sessionId\<close>,
  \<^verbatim>\<open>pagePath\<close> and \<^verbatim>\<open>country\<close>, and \<^verbatim>\<open>getOverview\<close> and \<^verbatim>\<open>getReferrers\<close> give the
  same result.
\<close>

theorem C2_only_project_and_dates_filter:
  assumes "projectId f = projectId g" and "startDate f = startDate g" and "endDate f = endDate g"
  shows "DSQL_getOverview_where f = DSQL_getOverview_where g \<and>
         DSQL_getPageViews_where f = DSQL_getPageViews_where g \<and>
         DSQL_getReferrers_where f = DSQL_getReferrers_where g \<and>
         DSQL_getDeviceStats_device_where f = DSQL_getDeviceStats_device_where g \<and>
         DSQL_getDeviceStats_browser_where f = DSQL_getDeviceStats_browser_where g \<and>
         DSQL_getDeviceStats_os_where f = DSQL_getDeviceStats_os_where g \<and>
         DSQL_getGeoStats_where f = DSQL_getGeoStats_where g \<and>
         DSQL_getTimeSeries_where f = DSQL_getTimeSeries_where g \<and>
         DSQL_getWebVitals_where f = DSQL_getWebVitals_where g \<and>
         ClickHouse_getOverview_where f = ClickHouse_getOverview_where g \<and>
         ClickHouse_getPageViews_where f = ClickHouse_getPageViews_where g \<and>
         ClickHouse_getReferrers_where f = ClickHouse_getReferrers_where g \<and>
         ClickHouse_getDeviceStats_device_where f = ClickHouse_getDeviceStats_device_where g \<and>
         ClickHouse_getDeviceStats_browser_where f = ClickHouse_getDeviceStats_browser_where g \<and>
         ClickHouse_getDeviceStats_os_where f = ClickHouse_getDeviceStats_os_where g \<and>
         ClickHouse_getGeoStats_where f = ClickHouse_getGeoStats_where g \<and>
         ClickHouse_getTimeSeries_where f = ClickHouse_getTimeSeries_where g \<and>
         ClickHouse_getWebVitals_where f = ClickHouse_getWebVitals_where g \<and>
         DSQL_getOverview f = DSQL_getOverview g \<and>
         DSQL_getReferrers f = DSQL_getReferrers g \<and>
         ClickHouse_getOverview uniq f = ClickHouse_getOverview uniq g \<and>
         ClickHouse_getReferrers domain uniq f = ClickHouse_getReferrers domain uniq g \<and>
         (DSQL_getOverview_where f r \<longleftrightarrow>
            project_id r = Some (projectId f) \<and> startDate f * 86400000 \<le> event_time r \<and>
            event_time r < (endDate f + 1) * 86400000) \<and>
         (ClickHouse_getOverview_where f c \<longleftrightarrow>
            project_id (cols c) = Some (projectId f) \<and> startDate f \<le> date_col c \<and>
            date_col c \<le> endDate f)"
proof -
  have d: "DSQL_where f = DSQL_where g" using assms by (rule DSQL_where_cong)
  have c: "ClickHouse_where f = ClickHouse_where g" using assms by (rule ClickHouse_where_cong)
  have dw: "DSQL_getOverview_where f = DSQL_getOverview_where g"
      "DSQL_getPageViews_where f = DSQL_getPageViews_where g"
      "DSQL_getReferrers_where f = DSQL_getReferrers_where g"
      "DSQL_getDeviceStats_device_where f = DSQL_getDeviceStats_device_where g"
      "DSQL_getDeviceStats_browser_where f = DSQL_getDeviceStats_browser_where g"
      "DSQL_getDeviceStats_os_where f = DSQL_getDeviceStats_os_where g"
      "DSQL_getGeoStats_where f = DSQL_getGeoStats_where g"
      "DSQL_getTimeSeries_where f = DSQL_getTimeSeries_where g"
      "DSQL_getWebVitals_where f = DSQL_getWebVitals_where g"
    by (rule ext, simp add: DSQL_where_defs d)+
  have cw: "ClickHouse_getOverview_where f = ClickHouse_getOverview_where g"
      "ClickHouse_getPageViews_where f = ClickHouse_getPageViews_where g"
      "ClickHouse_getReferrers_where f = ClickHouse_getReferrers_where g"
      "ClickHouse_getDeviceStats_device_where f = ClickHouse_getDeviceStats_device_where g"
      "ClickHouse_getDeviceStats_browser_where f = ClickHouse_getDeviceStats_browser_where g"
      "ClickHouse_getDeviceStats_os_where f = ClickHouse_getDeviceStats_os_where g"
      "ClickHouse_getGeoStats_where f = ClickHouse_getGeoStats_where g"
      "ClickHouse_getTimeSeries_where f = ClickHouse_getTimeSeries_where g"
      "ClickHouse_getWebVitals_where f = ClickHouse_getWebVitals_where g"
    by (rule ext, simp add: ClickHouse_where_defs c)+
  have full: "DSQL_getOverview f = DSQL_getOverview g" "DSQL_getReferrers f = DSQL_getReferrers g"
      "ClickHouse_getOverview uniq f = ClickHouse_getOverview uniq g"
      "ClickHouse_getReferrers domain uniq f = ClickHouse_getReferrers domain uniq g"
    by (intro ext, simp add: DSQL_getOverview_def DSQL_getReferrers_def ClickHouse_getOverview_def
          ClickHouse_getReferrers_def dw cw)+
  have base: "DSQL_getOverview_where f r \<longleftrightarrow>
            project_id r = Some (projectId f) \<and> startDate f * 86400000 \<le> event_time r \<and>
            event_time r < (endDate f + 1) * 86400000"
      "ClickHouse_getOverview_where f c \<longleftrightarrow>
            project_id (cols c) = Some (projectId f) \<and> startDate f \<le> date_col c \<and>
            date_col c \<le> endDate f"
    by (simp_all add: DSQL_getOverview_where_def DSQL_where_def ms_per_day_def
          ClickHouse_getOverview_where_def ClickHouse_where_def)
  show ?thesis using dw cw full base by simp
qed

text \<open>
  The amended C2 at two filters that differ in all five optional fields, and at a pageview
  row that the filter with \<^verbatim>\<open>eventType = "click"\<close> selects.
\<close>

theorem C2_only_project_and_dates_witness:
  "DSQL_getOverview click_filter = DSQL_getOverview day_filter \<and>
   DSQL_getPageViews_where click_filter = DSQL_getPageViews_where day_filter \<and>
   ClickHouse_getWebVitals_where click_filter = ClickHouse_getWebVitals_where day_filter \<and>
   DSQL_getOverview_where click_filter (pageview_row ''1'' ''s1'' None) \<and>
   ClickHouse_getOverview_where click_filter (on_day 20455 (pageview_row ''1'' ''s1'' None))"
proof -
  have e: "projectId click_filter = projectId day_filter"
    "startDate click_filter = startDate day_filter" "endDate click_filter = endDate day_filter"
    by (simp_all add: click_filter_def day_filter_def)
  have a: "DSQL_getOverview_where click_filter (pageview_row ''1'' ''s1'' None)"
    by (simp add: DSQL_getOverview_where_def DSQL_where_def click_filter_def pageview_row_def
          blank_row_def ms_per_day_def)
  have b: "ClickHouse_getOverview_where click_filter (on_day 20455 (pageview_row ''1'' ''s1'' None))"
    by (simp add: ClickHouse_getOverview_where_def ClickHouse_where_def click_filter_def
          pageview_row_def blank_row_def on_day_def)
  show ?thesis
    using C2_only_project_and_dates_filter [OF e, where uniq = sample_uniq and domain = sample_domain
            and r = "pageview_row ''1'' ''s1'' None"
            and c = "on_day 20455 (pageview_row ''1'' ''s1'' None)"] a b
    by blast
qed

text \<open>
  Claim C8, as the spec states it: referrers are grouped by host name, never by the full
  URL. In the DSQL adapter a referrer that does not start with \<^verbatim>\<open>http://\<close> or
  \<^verbatim>\<open>https://\<close> is its own group key: the group of an Android app referrer is named by the
  full URL.
\<close>

theorem C8_DSQL_groups_by_full_referrer:
  "DSQL_getReferrers day_filter None
      [pageview_row ''6'' ''s4'' (Some ''android-app://com.google.android.gm/'')]
   = [\<lparr> referrerDomain = ''android-app://com.google.android.gm/'', visits = 1,
        referrer_uniqueSessions = 1 \<rparr>]"
  by (simp add: DSQL_getReferrers_def DSQL_getReferrers_where_def DSQL_where_def day_filter_def
        pageview_row_def blank_row_def ms_per_day_def Let_def DSQL_referrer_key_def
        DSQL_referrer_domain_def after_scheme_def count_distinct_def List.map_filter_def
        limit_or_default_def)

lemma ordered_limited:
  fixes gs :: "ReferrerStat list" and n :: nat
  defines "res \<equiv> take n (sort_key (\<lambda>g. - int (visits g)) gs)"
  shows "set res \<subseteq> set gs"
    and "length res = min n (length gs)"
    and "sorted_wrt (\<lambda>a b. visits b \<le> visits a) res"
    and "distinct (map referrerDomain gs) \<Longrightarrow> distinct (map referrerDomain res)"
    and "length gs \<le> n \<Longrightarrow> set res = set gs"
proof -
  let ?s = "sort_key (\<lambda>g. - int (visits g)) gs"
  show "set res \<subseteq> set gs"
    unfolding res_def using set_take_subset [of n ?s] by simp
  show "length res = min n (length gs)"
    unfolding res_def by simp
  have "sorted (map (\<lambda>g. - int (visits g)) ?s)" by (rule sorted_sort_key)
  then have "sorted_wrt (\<lambda>a b. visits b \<le> visits a) ?s"
    by (simp add: sorted_wrt_map)
  then show "sorted_wrt (\<lambda>a b. visits b \<le> visits a) res"
    unfolding res_def by (rule sorted_wrt_take)
  show "distinct (map referrerDomain res)" if d: "distinct (map referrerDomain gs)"
  proof -
    from d have "distinct gs" "inj_on referrerDomain (set gs)" by (simp_all add: distinct_map)
    then have "distinct (map referrerDomain ?s)" by (simp add: distinct_map)
    then show ?thesis unfolding res_def by (simp add: take_map [symmetric] distinct_take del: take_map)
  qed
  show "set res = set gs" if "length gs \<le> n"
    unfolding res_def using that by simp
qed


lemma grouped_rows:
  fixes key :: "'r \<Rightarrow> string" and uq :: "'r list \<Rightarrow> nat" and rows :: "'r list"
  defines "gs \<equiv> map (\<lambda>d. \<lparr> referrerDomain = d, visits = length (filter (\<lambda>r. key r = d) rows),
                     referrer_uniqueSessions = uq (filter (\<lambda>r. key r = d) rows) \<rparr>)
                (remdups (map key rows))"
  shows "distinct (map referrerDomain gs)"
    and "g \<in> set gs \<Longrightarrow> referrerDomain g \<in> key ` set rows"
    and "g \<in> set gs \<Longrightarrow> visits g = length (filter (\<lambda>r. key r = referrerDomain g) rows)"
    and "referrerDomain ` set gs = key ` set rows"
proof -
  have m: "map referrerDomain gs = remdups (map key rows)"
    unfolding gs_def by (simp add: comp_def)
  show "distinct (map referrerDomain gs)" unfolding m by simp
  show "referrerDomain g \<in> key ` set rows" if "g \<in> set gs"
    using that unfolding gs_def by auto
  show "visits g = length (filter (\<lambda>r. key r = referrerDomain g) rows)" if "g \<in> set gs"
    using that unfolding gs_def by auto
  have "set (map referrerDomain gs) = key ` set rows" unfolding m by simp
  then show "referrerDomain ` set gs = key ` set rows" by simp
qed

lemma DSQL_referrer_domain_https:
  "host \<noteq> [] \<Longrightarrow> CHR ''/'' \<notin> set host \<Longrightarrow>
   DSQL_referrer_domain (''https://'' @ host @ CHR ''/'' # path) = host \<and>
   DSQL_referrer_domain (''http://'' @ host @ CHR ''/'' # path) = host \<and>
   DSQL_referrer_domain (''https://'' @ host) = host \<and>
   DSQL_referrer_domain (''http://'' @ host) = host"
proof -
  assume h: "host \<noteq> []" "CHR ''/'' \<notin> set host"
  have t: "takeWhile (\<lambda>c. c \<noteq> CHR ''/'') (host @ CHR ''/'' # path) = host"
    using h by (auto simp add: takeWhile_tail)
  have t2: "takeWhile (\<lambda>c. c \<noteq> CHR ''/'') host = host"
    using h by (auto simp add: takeWhile_eq_all_conv)
  have r1: "DSQL_referrer_domain (''https://'' @ x) =
      (if takeWhile (\<lambda>c. c \<noteq> CHR ''/'') x = [] then ''https://'' @ x
       else takeWhile (\<lambda>c. c \<noteq> CHR ''/'') x)" for x
    by (simp add: DSQL_referrer_domain_def after_scheme_def)
  have r2: "DSQL_referrer_domain (''http://'' @ x) =
      (if takeWhile (\<lambda>c. c \<noteq> CHR ''/'') x = [] then ''http://'' @ x
       else takeWhile (\<lambda>c. c \<noteq> CHR ''/'') x)" for x
    by (simp add: DSQL_referrer_domain_def after_scheme_def)
  show ?thesis unfolding r1 r2 t t2 using h(1) by simp
qed

lemma DSQL_referrer_domain_other:
  "after_scheme ref = None \<Longrightarrow> DSQL_referrer_domain ref = ref"
  by (simp add: DSQL_referrer_domain_def)

lemma ordered_limited_rest:
  fixes gs :: "ReferrerStat list" and n :: nat
  defines "res \<equiv> take n (sort_key (\<lambda>g. - int (visits g)) gs)"
  assumes b: "b \<in> set gs" "b \<notin> set res"
  shows "length res = n" and "a \<in> set res \<Longrightarrow> visits b \<le> visits a"
proof -
  let ?s = "sort_key (\<lambda>g. - int (visits g)) gs"
  have "sorted (map (\<lambda>g. - int (visits g)) ?s)" by (rule sorted_sort_key)
  then have "sorted_wrt (\<lambda>a b. visits b \<le> visits a) (take n ?s @ drop n ?s)"
    by (simp add: sorted_wrt_map)
  then have o: "\<forall>x \<in> set (take n ?s). \<forall>y \<in> set (drop n ?s). visits y \<le> visits x"
    unfolding sorted_wrt_append by blast
  have "set ?s = set (take n ?s) \<union> set (drop n ?s)"
    by (metis append_take_drop_id set_append)
  with b have d: "b \<in> set (drop n ?s)" unfolding res_def by auto
  with o show "visits b \<le> visits a" if "a \<in> set res" using that unfolding res_def by blast
  from d have "n < length ?s" by (cases "n < length ?s") auto
  then show "length res = n" unfolding res_def by simp
qed

lemma grouped_rows_count:
  fixes key :: "'r \<Rightarrow> string" and uq :: "'r list \<Rightarrow> nat" and rows :: "'r list"
  defines "gs \<equiv> map (\<lambda>d. \<lparr> referrerDomain = d, visits = length (filter (\<lambda>r. key r = d) rows),
                     referrer_uniqueSessions = uq (filter (\<lambda>r. key r = d) rows) \<rparr>)
                (remdups (map key rows))"
  shows "length gs = card (key ` set rows)"
    and "r \<in> set rows \<Longrightarrow> \<exists>g \<in> set gs. referrerDomain g = key r \<and>
           visits g = length (filter (\<lambda>r'. key r' = key r) rows)"
proof -
  show "length gs = card (key ` set rows)"
    unfolding gs_def by (simp add: length_remdups_card_conv)
  show "\<exists>g \<in> set gs. referrerDomain g = key r \<and>
           visits g = length (filter (\<lambda>r'. key r' = key r) rows)" if "r \<in> set rows"
    using that unfolding gs_def by auto
qed

lemma group_order_limit:
  fixes key :: "'r \<Rightarrow> string" and uq :: "'r list \<Rightarrow> nat" and rows :: "'r list" and n :: nat
  defines "res \<equiv> take n (sort_key (\<lambda>g. - int (visits g))
      (map (\<lambda>d. \<lparr> referrerDomain = d, visits = length (filter (\<lambda>r. key r = d) rows),
                   referrer_uniqueSessions = uq (filter (\<lambda>r. key r = d) rows) \<rparr>)
         (remdups (map key rows))))"
  shows "\<forall>g \<in> set res. \<exists>r \<in> set rows. referrerDomain g = key r"
    and "\<forall>g \<in> set res. visits g = length (filter (\<lambda>r. key r = referrerDomain g) rows)"
    and "sorted_wrt (\<lambda>a b. visits b \<le> visits a) res"
    and "distinct (map referrerDomain res)"
    and "length res = min n (card (key ` set rows))"
    and "\<forall>r \<in> set rows. key r \<notin> referrerDomain ` set res \<longrightarrow>
           length res = n \<and>
           (\<forall>g \<in> set res. length (filter (\<lambda>r'. key r' = key r) rows) \<le> visits g)"
proof -
  define gs where "gs = map (\<lambda>d. \<lparr> referrerDomain = d, visits = length (filter (\<lambda>r. key r = d) rows),
                   referrer_uniqueSessions = uq (filter (\<lambda>r. key r = d) rows) \<rparr>)
         (remdups (map key rows))"
  have res: "res = take n (sort_key (\<lambda>g. - int (visits g)) gs)"
    unfolding res_def gs_def ..
  note G = grouped_rows [where key = key and rows = rows and uq = uq, folded gs_def]
  note GC = grouped_rows_count [where key = key and rows = rows and uq = uq, folded gs_def]
  note O = ordered_limited [where gs = gs and n = n, folded res]
  note R = ordered_limited_rest [where gs = gs and n = n, folded res]
  show "\<forall>g \<in> set res. \<exists>r \<in> set rows. referrerDomain g = key r"
    using O(1) G(2) by fastforce
  show "\<forall>g \<in> set res. visits g = length (filter (\<lambda>r. key r = referrerDomain g) rows)"
    using O(1) G(3) by blast
  show "sorted_wrt (\<lambda>a b. visits b \<le> visits a) res" by (rule O(3))
  show "distinct (map referrerDomain res)" using O(4) G(1) by blast
  show "length res = min n (card (key ` set rows))" using O(2) GC(1) by simp
  show "\<forall>r \<in> set rows. key r \<notin> referrerDomain ` set res \<longrightarrow>
           length res = n \<and>
           (\<forall>g \<in> set res. length (filter (\<lambda>r'. key r' = key r) rows) \<le> visits g)"
  proof (intro ballI impI)
    fix r assume r: "r \<in> set rows" and out: "key r \<notin> referrerDomain ` set res"
    from GC(2) [OF r] obtain b where b: "b \<in> set gs" "referrerDomain b = key r"
      "visits b = length (filter (\<lambda>r'. key r' = key r) rows)" by blast
    from out b(2) have nb: "b \<notin> set res" by force
    show "length res = n \<and>
           (\<forall>g \<in> set res. length (filter (\<lambda>r'. key r' = key r) rows) \<le> visits g)"
      using R(1) [OF b(1) nb] R(2) [OF b(1) nb] b(3) by simp
  qed
qed


text \<open>
  Claim C8, amended: \<^verbatim>\<open>getReferrers\<close> groups the pageview rows of the project and date
  range whose \<^verbatim>\<open>pageReferrer\<close> is neither null nor empty. In the DSQL adapter the key of a
  group is the text between \<^verbatim>\<open>http://\<close> or \<^verbatim>\<open>https://\<close> and the next slash when the
  referrer starts that way and that text is not empty, and the whole referrer otherwise; in the ClickHouse adapter it
  is what the function \<^verbatim>\<open>domain\<close> of ClickHouse gives. Each group is returned once with
  the number of its rows as visits, groups come by visits in descending order, and the
  result is cut to \<^verbatim>\<open>limit\<close> groups (20 by default): a group is left out only when
  \<^verbatim>\<open>limit\<close> groups are returned, none of them with fewer visits.
\<close>

theorem C8_getReferrers_groups:
  "(\<forall>r \<in> set (filter (DSQL_getReferrers_where f) events).
      event_type r = Some ''pageview'' \<and>
      (\<exists>ref. page_referrer r = Some ref \<and> ref \<noteq> [] \<and>
             DSQL_referrer_key r = DSQL_referrer_domain ref)) \<and>
   (\<forall>g \<in> set (DSQL_getReferrers f limit events).
      \<exists>r \<in> set (filter (DSQL_getReferrers_where f) events). referrerDomain g = DSQL_referrer_key r) \<and>
   (\<forall>g \<in> set (DSQL_getReferrers f limit events).
      visits g = length (filter (\<lambda>r. DSQL_referrer_key r = referrerDomain g)
                           (filter (DSQL_getReferrers_where f) events))) \<and>
   sorted_wrt (\<lambda>a b. visits b \<le> visits a) (DSQL_getReferrers f limit events) \<and>
   distinct (map referrerDomain (DSQL_getReferrers f limit events)) \<and>
   length (DSQL_getReferrers f limit events)
     = min (limit_or_default limit)
           (card (DSQL_referrer_key ` set (filter (DSQL_getReferrers_where f) events))) \<and>
   (\<forall>r \<in> set (filter (DSQL_getReferrers_where f) events).
      DSQL_referrer_key r \<notin> referrerDomain ` set (DSQL_getReferrers f limit events) \<longrightarrow>
      length (DSQL_getReferrers f limit events) = limit_or_default limit \<and>
      (\<forall>g \<in> set (DSQL_getReferrers f limit events).
         length (filter (\<lambda>r'. DSQL_referrer_key r' = DSQL_referrer_key r)
                   (filter (DSQL_getReferrers_where f) events)) \<le> visits g)) \<and>
   (\<forall>host path. host \<noteq> [] \<and> CHR ''/'' \<notin> set host \<longrightarrow>
      DSQL_referrer_domain (''https://'' @ host @ CHR ''/'' # path) = host \<and>
      DSQL_referrer_domain (''http://'' @ host @ CHR ''/'' # path) = host) \<and>
   (\<forall>ref. after_scheme ref = None \<longrightarrow> DSQL_referrer_domain ref = ref) \<and>
   (\<forall>r \<in> set (filter (ClickHouse_getReferrers_where f) chevents).
      event_type (cols r) = Some ''pageview'' \<and>
      (\<exists>ref. page_referrer (cols r) = Some ref \<and> ref \<noteq> [] \<and>
             ClickHouse_referrer_key domain r = domain ref)) \<and>
   (\<forall>g \<in> set (ClickHouse_getReferrers domain uniq f limit chevents).
      \<exists>r \<in> set (filter (ClickHouse_getReferrers_where f) chevents).
         referrerDomain g = ClickHouse_referrer_key domain r) \<and>
   (\<forall>g \<in> set (ClickHouse_getReferrers domain uniq f limit chevents).
      visits g = length (filter (\<lambda>r. ClickHouse_referrer_key domain r = referrerDomain g)
                           (filter (ClickHouse_getReferrers_where f) chevents))) \<and>
   sorted_wrt (\<lambda>a b. visits b \<le> visits a) (ClickHouse_getReferrers domain uniq f limit chevents) \<and>
   distinct (map referrerDomain (ClickHouse_getReferrers domain uniq f limit chevents)) \<and>
   length (ClickHouse_getReferrers domain uniq f limit chevents)
     = min (limit_or_default limit)
           (card (ClickHouse_referrer_key domain
                    ` set (filter (ClickHouse_getReferrers_where f) chevents))) \<and>
   (\<forall>r \<in> set (filter (ClickHouse_getReferrers_where f) chevents).
      ClickHouse_referrer_key domain r
        \<notin> referrerDomain ` set (ClickHouse_getReferrers domain uniq f limit chevents) \<longrightarrow>
      length (ClickHouse_getReferrers domain uniq f limit chevents) = limit_or_default limit \<and>
      (\<forall>g \<in> set (ClickHouse_getReferrers domain uniq f limit chevents).
         length (filter (\<lambda>r'. ClickHouse_referrer_key domain r' = ClickHouse_referrer_key domain r)
                   (filter (ClickHouse_getReferrers_where f) chevents)) \<le> visits g))"
proof -
  define rows where "rows = filter (DSQL_getReferrers_where f) events"
  have res: "DSQL_getReferrers f limit events
      = take (limit_or_default limit) (sort_key (\<lambda>g. - int (visits g))
          (map (\<lambda>d. \<lparr> referrerDomain = d,
                       visits = length (filter (\<lambda>r. DSQL_referrer_key r = d) rows),
                       referrer_uniqueSessions =
                         count_distinct session_id (filter (\<lambda>r. DSQL_referrer_key r = d) rows) \<rparr>)
             (remdups (map DSQL_referrer_key rows))))"
    by (simp add: DSQL_getReferrers_def Let_def rows_def)
  note D = group_order_limit [where key = DSQL_referrer_key and rows = rows
      and uq = "count_distinct session_id" and n = "limit_or_default limit", folded res]
  have d0: "\<forall>r \<in> set rows. event_type r = Some ''pageview'' \<and>
      (\<exists>ref. page_referrer r = Some ref \<and> ref \<noteq> [] \<and>
             DSQL_referrer_key r = DSQL_referrer_domain ref)"
  proof
    fix r assume "r \<in> set rows"
    then show "event_type r = Some ''pageview'' \<and>
      (\<exists>ref. page_referrer r = Some ref \<and> ref \<noteq> [] \<and>
             DSQL_referrer_key r = DSQL_referrer_domain ref)"
      by (cases "page_referrer r")
         (auto simp add: rows_def DSQL_getReferrers_where_def DSQL_referrer_key_def)
  qed
  define crows where "crows = filter (ClickHouse_getReferrers_where f) chevents"
  have cres: "ClickHouse_getReferrers domain uniq f limit chevents
      = take (limit_or_default limit) (sort_key (\<lambda>g. - int (visits g))
          (map (\<lambda>d. \<lparr> referrerDomain = d,
                       visits = length (filter (\<lambda>r. ClickHouse_referrer_key domain r = d) crows),
                       referrer_uniqueSessions =
                         uniq (map (\<lambda>r. session_id (cols r))
                                 (filter (\<lambda>r. ClickHouse_referrer_key domain r = d) crows)) \<rparr>)
             (remdups (map (ClickHouse_referrer_key domain) crows))))"
    by (simp add: ClickHouse_getReferrers_def Let_def crows_def)
  note C = group_order_limit [where key = "ClickHouse_referrer_key domain" and rows = crows
      and uq = "\<lambda>rs. uniq (map (\<lambda>r. session_id (cols r)) rs)"
      and n = "limit_or_default limit", folded cres]
  have c0: "\<forall>r \<in> set crows. event_type (cols r) = Some ''pageview'' \<and>
      (\<exists>ref. page_referrer (cols r) = Some ref \<and> ref \<noteq> [] \<and>
             ClickHouse_referrer_key domain r = domain ref)"
  proof
    fix r assume "r \<in> set crows"
    then show "event_type (cols r) = Some ''pageview'' \<and>
      (\<exists>ref. page_referrer (cols r) = Some ref \<and> ref \<noteq> [] \<and>
             ClickHouse_referrer_key domain r = domain ref)"
      by (cases "page_referrer (cols r)")
         (auto simp add: crows_def ClickHouse_getReferrers_where_def ClickHouse_referrer_key_def)
  qed
  have k1: "\<forall>host path. host \<noteq> [] \<and> CHR ''/'' \<notin> set host \<longrightarrow>
      DSQL_referrer_domain (''https://'' @ host @ CHR ''/'' # path) = host \<and>
      DSQL_referrer_domain (''http://'' @ host @ CHR ''/'' # path) = host"
    using DSQL_referrer_domain_https by blast
  have k2: "\<forall>ref. after_scheme ref = None \<longrightarrow> DSQL_referrer_domain ref = ref"
    using DSQL_referrer_domain_other by blast
  show ?thesis
    unfolding rows_def [symmetric] crows_def [symmetric]
    by (intro conjI d0 D c0 C k1 k2)
qed

lemmas query_eval =
  DSQL_getReferrers_def DSQL_getReferrers_where_def DSQL_where_def day_filter_def
  pageview_row_def blank_row_def ms_per_day_def Let_def DSQL_referrer_key_def
  DSQL_referrer_domain_def after_scheme_def count_distinct_def List.map_filter_def
  limit_or_default_def

text \<open>
  The amended C8 at a table of six pageviews: two referrers of host \<^verbatim>\<open>www.google.com\<close>,
  one of \<^verbatim>\<open>news.example.org\<close>, an empty one, a null one and an Android app referrer,
  with limit 2 in DSQL and the default limit in ClickHouse.
\<close>

theorem C8_getReferrers_witness:
  "DSQL_getReferrers day_filter (Some 2) referrer_table
     = [\<lparr> referrerDomain = ''www.google.com'', visits = 2, referrer_uniqueSessions = 2 \<rparr>,
        \<lparr> referrerDomain = ''news.example.org'', visits = 1, referrer_uniqueSessions = 1 \<rparr>] \<and>
   ClickHouse_getReferrers sample_domain sample_uniq day_filter None (map (on_day 20455) referrer_table)
     = [\<lparr> referrerDomain = ''www.google.com'', visits = 2, referrer_uniqueSessions = 2 \<rparr>,
        \<lparr> referrerDomain = ''news.example.org'', visits = 1, referrer_uniqueSessions = 1 \<rparr>,
        \<lparr> referrerDomain = [], visits = 1, referrer_uniqueSessions = 1 \<rparr>] \<and>
   DSQL_referrer_domain ''https://www.google.com/search?q=x'' = ''www.google.com'' \<and>
   DSQL_referrer_domain ''android-app://com.google.android.gm/'' = ''android-app://com.google.android.gm/''"
  using C8_getReferrers_groups [where f = day_filter and limit = "Some 2" and events = referrer_table
          and domain = sample_domain and uniq = sample_uniq
          and chevents = "map (on_day 20455) referrer_table"]
  by (simp add: query_eval referrer_table_def ClickHouse_getReferrers_def
        ClickHouse_getReferrers_where_def ClickHouse_where_def ClickHouse_referrer_key_def
        sample_domain_def sample_uniq_def on_day_def)

end
